theory Spec2Isabelle
  imports Main "HOL-Library.Monad_Syntax"
begin

section \<open>Strings as Python reads them\<close>

text \<open>
  Texts are \<^typ>\<open>string\<close>. \<open>str.split()\<close> without arguments cuts a text at runs of
  whitespace and never yields an empty word. The whitespace characters are the ASCII
  ones of \<open>str.isspace\<close> (tab, line feed, vertical tab, form feed, carriage return,
  the four separators 0x1C to 0x1F and the blank); whitespace beyond ASCII is not
  modelled.
\<close>

definition is_space :: "char \<Rightarrow> bool" where
  "is_space c \<longleftrightarrow> c \<in> set [CHR 0x09, CHR 0x0A, CHR 0x0B, CHR 0x0C, CHR 0x0D,
                          CHR 0x1C, CHR 0x1D, CHR 0x1E, CHR 0x1F, CHR 0x20]"

text \<open>\<open>words_acc w s\<close>: the words of \<open>s\<close>, where \<open>w\<close> is the word being read.\<close>

fun words_acc :: "string \<Rightarrow> string \<Rightarrow> string list" where
  "words_acc w [] = (if w = [] then [] else [w])"
| "words_acc w (c # cs) =
     (if is_space c then (if w = [] then words_acc [] cs else w # words_acc [] cs)
      else words_acc (w @ [c]) cs)"

definition py_split :: "string \<Rightarrow> string list" where
  "py_split s = words_acc [] s"

text \<open>\<open>sep.join(ws)\<close>.\<close>

fun py_join :: "string \<Rightarrow> string list \<Rightarrow> string" where
  "py_join sep [] = []"
| "py_join sep [w] = w"
| "py_join sep (w # v # ws) = w @ sep @ py_join sep (v # ws)"

text \<open>
  The slice \<open>xs[:n]\<close> for a Python integer \<open>n\<close>: the first \<open>n\<close> elements, and for a
  negative \<open>n\<close> all but the last \<open>-n\<close>.
\<close>

definition py_prefix :: "int \<Rightarrow> 'a list \<Rightarrow> 'a list" where
  "py_prefix n xs = (if 0 \<le> n then take (nat n) xs else take (nat (int (length xs) + n)) xs)"

section \<open>Tables: the file and the data frame\<close>

text \<open>
  The scrapers keep their tables in files of comma-separated values, which they read
  with \<open>pd.read_csv\<close> and write with \<open>DataFrame.to_csv\<close>, both with the defaults of
  pandas. Between the two the table is a data frame, whose values are typed. A value
  of a data frame, or of a Python dictionary that becomes a row of one, is a \<open>cell\<close>:
  the missing value (the float \<open>nan\<close>), an integer, a float, a Boolean or a text
  (\<open>str\<close>). A float is given by a decimal numeral that denotes it; the scripts neither
  compute with floats nor compare them. The only comparisons the scripts make are of a
  value with a text, and in Python a text is equal to no number, to no Boolean and not
  to \<open>nan\<close>: so are the cells of different types here.
\<close>

datatype cell = NaN | Integer int | Float string | Bool bool | Str string

text \<open>
  In a file a cell is its text, with the quoting of the file format undone. The texts
  that \<open>pd.read_csv\<close> reads as a missing value, in a column of any type (the default
  \<open>na_values\<close> of pandas 2).
\<close>

definition na_values :: "string list" where
  "na_values = [[], ''#N/A'', ''#N/A N/A'', ''#NA'', ''-1.#IND'', ''-1.#QNAN'', ''-NaN'', ''-nan'',
                ''1.#IND'', ''1.#QNAN'', ''<NA>'', ''N/A'', ''NA'', ''NULL'', ''NaN'', ''None'',
                ''n/a'', ''nan'', ''null'']"

definition is_na :: "string \<Rightarrow> bool" where
  "is_na t \<longleftrightarrow> t \<in> set na_values"

text \<open>
  Numerals. \<open>plain_int\<close>: an optional minus sign and one to eighteen decimal digits, which
  every such column of \<open>pd.read_csv\<close> reads as a 64-bit integer. \<open>plain_decimal\<close>: an
  optional minus sign, digits, a point and digits.
\<close>

definition is_digit :: "char \<Rightarrow> bool" where
  "is_digit c \<longleftrightarrow> c \<in> set ''0123456789''"

definition all_digits :: "string \<Rightarrow> bool" where
  "all_digits ds \<longleftrightarrow> ds \<noteq> [] \<and> list_all is_digit ds"

definition unsigned :: "string \<Rightarrow> string" where
  "unsigned t = (case t of [] \<Rightarrow> [] | c # cs \<Rightarrow> if c = CHR ''-'' then cs else t)"

definition plain_int :: "string \<Rightarrow> bool" where
  "plain_int t \<longleftrightarrow> all_digits (unsigned t) \<and> length (unsigned t) \<le> 18"

definition plain_decimal :: "string \<Rightarrow> bool" where
  "plain_decimal t \<longleftrightarrow>
     all_digits (takeWhile (\<lambda>c. c \<noteq> CHR ''.'') (unsigned t))
     \<and> (case dropWhile (\<lambda>c. c \<noteq> CHR ''.'') (unsigned t) of
          [] \<Rightarrow> False
        | point # fraction \<Rightarrow> all_digits fraction)"

definition digit_value :: "char \<Rightarrow> nat" where
  "digit_value c = of_char c - 48"

definition nat_of_digits :: "string \<Rightarrow> nat" where
  "nat_of_digits ds = foldl (\<lambda>v c. 10 * v + digit_value c) 0 ds"

definition int_of_text :: "string \<Rightarrow> int" where
  "int_of_text t =
     (case t of
        [] \<Rightarrow> 0
      | c # cs \<Rightarrow> if c = CHR ''-'' then - int (nat_of_digits cs) else int (nat_of_digits t))"

text \<open>The decimal numeral of an integer, as \<open>str\<close> and \<open>to_csv\<close> print it.\<close>

function show_nat :: "nat \<Rightarrow> string" where
  "show_nat n = (if n < 10 then [''0123456789'' ! n]
                 else show_nat (n div 10) @ [''0123456789'' ! (n mod 10)])"
  by pat_completeness auto
termination
  by (relation "measure id") auto

declare show_nat.simps [simp del]

definition show_int :: "int \<Rightarrow> string" where
  "show_int i = (if i < 0 then CHR ''-'' # show_nat (nat (- i)) else show_nat (nat i))"

text \<open>
  The texts that \<open>pd.read_csv\<close> reads as Booleans, and the characters that can stand in
  a numeral of any notation (digits, signs, points and separators, exponent and base
  marks, the letters of \<open>inf\<close>, \<open>infinity\<close> and \<open>nan\<close>, blanks). A text with a character
  that is not among them is no numeral.
\<close>

definition true_values :: "string list" where
  "true_values = [''True'', ''TRUE'', ''true'']"

definition false_values :: "string list" where
  "false_values = [''False'', ''FALSE'', ''false'']"

definition is_bool_text :: "string \<Rightarrow> bool" where
  "is_bool_text t \<longleftrightarrow> t \<in> set true_values \<or> t \<in> set false_values"

definition numeral_char :: "char \<Rightarrow> bool" where
  "numeral_char c \<longleftrightarrow> c \<in> set ''0123456789+-.,_eExXpPjJinfatyINFATY'' \<or> is_space c"

definition surely_text :: "string \<Rightarrow> bool" where
  "surely_text t \<longleftrightarrow> list_ex (\<lambda>c. \<not> numeral_char c) t"

text \<open>
  The type \<open>pd.read_csv\<close> infers for a column from the texts of its cells, the missing
  ones apart: Booleans when all are Boolean texts, texts (the \<open>object\<close> type) when
  none of them can be a number or a Boolean, 64-bit integers when all are integers and
  none is missing, floats when all are integers or decimals (a column with a missing
  value cannot be an integer column). The result is \<open>None\<close> for the columns this model
  does not decide: Boolean texts with missing values; numerals in another notation than
  the two above (a plus sign, an exponent, more than eighteen digits, blanks around); and
  columns that mix texts with numerals or Booleans, which pandas reads in pieces whose
  types depend on the size of the file.
\<close>

datatype kind = Int64 | Float64 | Boolean | Object

definition column_kind :: "string list \<Rightarrow> kind option" where
  "column_kind ts =
     (let present = filter (\<lambda>t. \<not> is_na t) ts; complete = (present = ts) in
      if present = [] then Some Float64
      else if list_all is_bool_text present then (if complete then Some Boolean else None)
      else if list_all (\<lambda>t. surely_text t \<and> \<not> is_bool_text t) present then Some Object
      else if list_all plain_int present then (if complete then Some Int64 else Some Float64)
      else if list_all (\<lambda>t. plain_int t \<or> plain_decimal t) present then Some Float64
      else None)"

text \<open>The value read from a cell of a column of a given type.\<close>

definition read_cell :: "kind \<Rightarrow> string \<Rightarrow> cell" where
  "read_cell k t =
     (if is_na t then NaN
      else case k of
             Int64 \<Rightarrow> Integer (int_of_text t)
           | Float64 \<Rightarrow> Float t
           | Boolean \<Rightarrow> Bool (t \<in> set true_values)
           | Object \<Rightarrow> Str t)"

definition read_column :: "string list \<Rightarrow> (string \<Rightarrow> cell) option" where
  "read_column ts = map_option read_cell (column_kind ts)"

text \<open>
  What \<open>to_csv\<close> writes for a value: nothing for a missing value, the decimal numeral of
  an integer, \<open>True\<close> or \<open>False\<close>, the text itself. The digits it writes for a float are
  not computed (\<open>None\<close>).
\<close>

definition print_cell :: "cell \<Rightarrow> string option" where
  "print_cell c =
     (case c of
        NaN \<Rightarrow> Some []
      | Integer i \<Rightarrow> Some (show_int i)
      | Float t \<Rightarrow> None
      | Bool b \<Rightarrow> Some (if b then ''True'' else ''False'')
      | Str s \<Rightarrow> Some s)"

definition is_int :: "cell \<Rightarrow> bool" where
  "is_int c = (case c of Integer i \<Rightarrow> True | _ \<Rightarrow> False)"

definition is_str :: "cell \<Rightarrow> bool" where
  "is_str c = (case c of Str s \<Rightarrow> True | _ \<Rightarrow> False)"

text \<open>
  The integers of a column stay integers in a data frame when the column holds nothing
  else (a column of 64-bit integers) or holds a text (a column of type \<open>object\<close>); a
  column of integers with missing values or floats is a column of floats.
\<close>

definition integers_kept :: "cell list \<Rightarrow> bool" where
  "integers_kept cs \<longleftrightarrow> list_all is_int cs \<or> list_ex is_str cs \<or> list_all (\<lambda>c. \<not> is_int c) cs"


section \<open>The Steam collector: \<open>SmartSteamScraper\<close> (steam\_scr3.py)\<close>

subsection \<open>Rows, raw reviews and responses\<close>

text \<open>
  The metadata dictionary of \<open>fetch_game_metadata\<close> (a float for the price, an integer or
  a text for the age rating, texts for the game mode and the genres); a missing key
  reads as the text \<open>'N/A'\<close> (\<open>metadata.get(key, 'N/A')\<close>).
\<close>

type_synonym metadata = "(string \<times> cell) list"

definition meta_get :: "metadata \<Rightarrow> string \<Rightarrow> cell" where
  "meta_get md k = (case map_of md k of None \<Rightarrow> Str ''N/A'' | Some v \<Rightarrow> v)"

text \<open>
  One row of a data frame with the columns the scraper writes: a row of the table read
  from the file, or the dictionary of a new review. The columns that the scraper fills
  with the application number, the Boolean and the three numbers of the response are
  typed as such; the model does not cover a table in which one of them holds something
  else.
\<close>

record review =
  game_name :: cell
  app_id :: int
  price_usd :: cell
  age_rating :: cell
  game_mode :: cell
  genres :: cell
  user_id :: cell
  review_text :: cell
  voted_up :: bool
  votes_helpful :: int
  votes_funny :: int
  created :: int

text \<open>The same row in the file: the other columns are the texts of their cells.\<close>

record csv_row =
  csv_game_name :: string
  csv_app_id :: int
  csv_price_usd :: string
  csv_age_rating :: string
  csv_game_mode :: string
  csv_genres :: string
  csv_user_id :: string
  csv_review_text :: string
  csv_voted_up :: bool
  csv_votes_helpful :: int
  csv_votes_funny :: int
  csv_created :: int

text \<open>
  \<open>pd.read_csv\<close> of such a file: every column is read with the type inferred for it,
  the rows stay in their order. \<open>None\<close> when the type of a column is not decided by the
  model.
\<close>

definition read_csv :: "csv_row list \<Rightarrow> review list option" where
  "read_csv rows =
     do {
       name \<leftarrow> read_column (map csv_game_name rows);
       price \<leftarrow> read_column (map csv_price_usd rows);
       age \<leftarrow> read_column (map csv_age_rating rows);
       mode \<leftarrow> read_column (map csv_game_mode rows);
       genre \<leftarrow> read_column (map csv_genres rows);
       user \<leftarrow> read_column (map csv_user_id rows);
       body \<leftarrow> read_column (map csv_review_text rows);
       Some (map (\<lambda>r. \<lparr>game_name = name (csv_game_name r), app_id = csv_app_id r,
                        price_usd = price (csv_price_usd r), age_rating = age (csv_age_rating r),
                        game_mode = mode (csv_game_mode r), genres = genre (csv_genres r),
                        user_id = user (csv_user_id r), review_text = body (csv_review_text r),
                        voted_up = csv_voted_up r, votes_helpful = csv_votes_helpful r,
                        votes_funny = csv_votes_funny r, created = csv_created r\<rparr>) rows)
     }"

text \<open>
  The texts that \<open>to_csv\<close> writes for the cells of a row, \<open>None\<close> when the row holds a
  float.
\<close>

definition print_row :: "review \<Rightarrow> csv_row option" where
  "print_row r =
     do {
       name \<leftarrow> print_cell (game_name r);
       price \<leftarrow> print_cell (price_usd r);
       age \<leftarrow> print_cell (age_rating r);
       mode \<leftarrow> print_cell (game_mode r);
       genre \<leftarrow> print_cell (genres r);
       user \<leftarrow> print_cell (user_id r);
       body \<leftarrow> print_cell (review_text r);
       Some \<lparr>csv_game_name = name, csv_app_id = app_id r, csv_price_usd = price,
             csv_age_rating = age, csv_game_mode = mode, csv_genres = genre, csv_user_id = user,
             csv_review_text = body, csv_voted_up = voted_up r,
             csv_votes_helpful = votes_helpful r, csv_votes_funny = votes_funny r,
             csv_created = created r\<rparr>
     }"

text \<open>
  \<open>pd.DataFrame\<close> of a list of rows and \<open>pd.concat\<close> of two data frames keep the
  values of the rows, except in a column that holds integers together with floats,
  missing values or Booleans and no text, where pandas may turn the integers into floats
  of the same value: such a frame is not decided by the model (\<open>None\<close>).
\<close>

definition data_frame :: "review list \<Rightarrow> review list option" where
  "data_frame rows =
     (if list_all (\<lambda>column. integers_kept (map column rows))
           [game_name, price_usd, age_rating, game_mode, genres, user_id, review_text]
      then Some rows else None)"

definition to_csv :: "review list \<Rightarrow> csv_row list option" where
  "to_csv df = do { frame \<leftarrow> data_frame df; those (map print_row frame) }"

text \<open>
  One element of the \<open>reviews\<close> array of a response. A field is \<open>None\<close> when the key
  is missing from the JSON object: \<open>review.get("review", "")\<close> then reads the empty
  text, and an indexing such as \<open>review["author"]["steamid"]\<close> raises \<open>KeyError\<close>. The
  \<open>steamid\<close> of the endpoint is a JSON string, so \<open>user_id\<close> is a \<open>str\<close>.
\<close>

record raw_review =
  rr_review :: "string option"
  rr_steamid :: "string option"
  rr_voted_up :: "bool option"
  rr_votes_up :: "int option"
  rr_votes_funny :: "int option"
  rr_timestamp_created :: "int option"

text \<open>
  A response of the review endpoint: the HTTP status, the truth value of
  \<open>data.get("success")\<close>, \<open>data.get("reviews", [])\<close> and \<open>data.get("cursor")\<close>.
  The endpoint itself is a function of the request (application, review type,
  cursor); it answers \<open>None\<close> when \<open>requests.get\<close> or \<open>response.json()\<close> raises.
\<close>

record response =
  status_code :: int
  success :: bool
  reviews :: "raw_review list"
  cursor :: "string option"

type_synonym review_api = "int \<Rightarrow> string \<Rightarrow> string \<Rightarrow> response option"

subsection \<open>The scraper's state\<close>

text \<open>
  \<open>existing_reviews\<close> is the set of \<open>(user_id, game_name)\<close> tuples, with the values as
  the data frame holds them. \<open>game_stats\<close> maps a game to its (positive, negative)
  counts; it is the dictionary of the source restricted to the keys that are a \<open>str\<close>,
  the only ones under which the scraper looks it up or changes it (the names of
  \<open>GAME_IDS\<close>).
\<close>

record scraper =
  target_per_game :: int
  existing_reviews :: "(cell \<times> cell) set"
  game_stats :: "string \<rightharpoonup> int \<times> int"

text \<open>
  Lines 149 to 151: every row whose \<open>user_id\<close> is not the text \<open>'N/A'\<close> is tracked,
  under the values of its two cells.
\<close>

definition tracked_pairs :: "review list \<Rightarrow> (cell \<times> cell) set" where
  "tracked_pairs df =
     set (map (\<lambda>row. (user_id row, game_name row)) (filter (\<lambda>row. user_id row \<noteq> Str ''N/A'') df))"

text \<open>
  Lines 156 to 160: per game, the sum of \<open>voted_up\<close> over the rows of the game and the
  remaining rows of the game.
\<close>

definition pos_count :: "review list \<Rightarrow> string \<Rightarrow> int" where
  "pos_count df g = int (length (filter (\<lambda>row. game_name row = Str g \<and> voted_up row) df))"

definition neg_count :: "review list \<Rightarrow> string \<Rightarrow> int" where
  "neg_count df g = int (length (filter (\<lambda>row. game_name row = Str g) df)) - pos_count df g"

definition stats_of :: "review list \<Rightarrow> (string \<rightharpoonup> int \<times> int)" where
  "stats_of df =
     (\<lambda>g. if Str g \<in> set (map game_name df) then Some (pos_count df g, neg_count df g) else None)"

text \<open>
  \<open>__init__\<close>: \<open>existing_file\<close> is the data frame that \<open>pd.read_csv\<close> returns for the
  file, \<open>None\<close> when it raises \<open>FileNotFoundError\<close>.
\<close>

definition scraper_init :: "review list option \<Rightarrow> int \<Rightarrow> scraper" where
  "scraper_init existing_file tpg =
     (case existing_file of
        Some df \<Rightarrow>
          \<lparr>target_per_game = tpg, existing_reviews = tracked_pairs df, game_stats = stats_of df\<rparr>
      | None \<Rightarrow>
          \<lparr>target_per_game = tpg, existing_reviews = {}, game_stats = Map.empty\<rparr>)"

text \<open>
  \<open>is_duplicate\<close> is called with the \<open>steamid\<close> of a response and a name of \<open>GAME_IDS\<close>,
  both a \<open>str\<close>: the tuple of the two texts is looked up in the set. A tuple of the
  set is equal to it only when both its values are texts.
\<close>

definition is_duplicate :: "scraper \<Rightarrow> string \<Rightarrow> string \<Rightarrow> bool" where
  "is_duplicate s uid g \<longleftrightarrow> (Str uid, Str g) \<in> existing_reviews s"

subsection \<open>The quota planner\<close>

record needed =
  positive :: int
  negative :: int
  current_positive :: int
  current_negative :: int

definition calculate_needed :: "scraper \<Rightarrow> string \<Rightarrow> needed" where
  "calculate_needed s g =
     (let (current_pos, current_neg) =
            (case game_stats s g of Some (p, n) \<Rightarrow> (p, n) | None \<Rightarrow> (0, 0));
          target_pos = target_per_game s div 2;
          target_neg = target_per_game s div 2;
          needed_pos = max 0 (target_pos - current_pos);
          needed_neg = max 0 (target_neg - current_neg)
      in \<lparr>positive = needed_pos, negative = needed_neg,
          current_positive = current_pos, current_negative = current_neg\<rparr>)"

subsection \<open>The paginated fetch with the record filter\<close>

text \<open>
  The row appended at lines 360 to 373. The four indexings \<open>review["voted_up"]\<close>,
  \<open>review["votes_up"]\<close>, \<open>review["votes_funny"]\<close> and \<open>review["timestamp_created"]\<close>
  raise \<open>KeyError\<close> on a missing key: the result is then \<open>None\<close>.
\<close>

definition new_row :: "string \<Rightarrow> int \<Rightarrow> metadata \<Rightarrow> string \<Rightarrow> string \<Rightarrow> raw_review \<Rightarrow> review option" where
  "new_row g a md uid txt r =
     (case (rr_voted_up r, rr_votes_up r, rr_votes_funny r, rr_timestamp_created r) of
        (Some v, Some h, Some f, Some c) \<Rightarrow>
          Some \<lparr>game_name = Str g, app_id = a,
                price_usd = meta_get md ''price_usd'', age_rating = meta_get md ''age_rating'',
                game_mode = meta_get md ''game_mode'', genres = meta_get md ''genres'',
                user_id = Str uid, review_text = Str txt, voted_up = v,
                votes_helpful = h, votes_funny = f, created = c\<rparr>
      | _ \<Rightarrow> None)"

text \<open>
  The loop over one page (lines 346 to 379), on the list of reviews collected so far
  and the tracker. The Boolean of the result tells that an exception was raised, which
  the handler of line 391 turns into the end of the fetch. The counter
  \<open>duplicates_found\<close> is only printed and is left out.
\<close>

fun process_page ::
  "string \<Rightarrow> int \<Rightarrow> metadata \<Rightarrow> int \<Rightarrow> raw_review list \<Rightarrow> review list \<Rightarrow> (cell \<times> cell) set
   \<Rightarrow> bool \<times> review list \<times> (cell \<times> cell) set" where
  "process_page g a md target_count [] rs tr = (False, rs, tr)"
| "process_page g a md target_count (r # batch) rs tr =
     (let txt = (case rr_review r of None \<Rightarrow> [] | Some t \<Rightarrow> t) in
      case rr_steamid r of
        None \<Rightarrow> (True, rs, tr)
      | Some uid \<Rightarrow>
          if (Str uid, Str g) \<in> tr then process_page g a md target_count batch rs tr
          else if length (py_split txt) < 5 then process_page g a md target_count batch rs tr
          else (case new_row g a md uid txt r of
                  None \<Rightarrow> (True, rs, tr)
                | Some row \<Rightarrow>
                    if target_count \<le> int (length (rs @ [row]))
                    then (False, rs @ [row], insert (Str uid, Str g) tr)
                    else process_page g a md target_count batch (rs @ [row])
                           (insert (Str uid, Str g) tr)))"

definition max_pages :: nat where
  "max_pages = 50"

text \<open>
  The \<open>while\<close> loop of lines 322 to 393, from the state (cursor, pages checked, reviews,
  tracker). The last component of the result counts the requests sent, which the
  source does not store.
\<close>

function scrape_loop ::
  "review_api \<Rightarrow> int \<Rightarrow> string \<Rightarrow> string \<Rightarrow> int \<Rightarrow> metadata \<Rightarrow> string \<Rightarrow> nat \<Rightarrow> review list
   \<Rightarrow> (cell \<times> cell) set \<Rightarrow> nat \<Rightarrow> review list \<times> (cell \<times> cell) set \<times> nat" where
  "scrape_loop api a g review_type target_count md cur pages_checked rs tr sent =
     (if int (length rs) < target_count \<and> pages_checked < max_pages then
        (case api a review_type cur of
           None \<Rightarrow> (rs, tr, Suc sent)
         | Some resp \<Rightarrow>
             if status_code resp \<noteq> 200 then (rs, tr, Suc sent)
             else if \<not> success resp then (rs, tr, Suc sent)
             else if reviews resp = [] then (rs, tr, Suc sent)
             else (case process_page g a md target_count (reviews resp) rs tr of
                     (raised, rs', tr') \<Rightarrow>
                       if raised then (rs', tr', Suc sent)
                       else (case cursor resp of
                               None \<Rightarrow> (rs', tr', Suc sent)
                             | Some c \<Rightarrow>
                                 if c = [] \<or> c = ''*'' then (rs', tr', Suc sent)
                                 else scrape_loop api a g review_type target_count md c
                                        (Suc pages_checked) rs' tr' (Suc sent))))
      else (rs, tr, sent))"
  by pat_completeness auto
termination
  by (relation "measure (\<lambda>(api, a, g, review_type, target_count, md, cur, pages_checked, rs, tr, sent).
        max_pages - pages_checked)") auto

definition scrape_by_type ::
  "review_api \<Rightarrow> (cell \<times> cell) set \<Rightarrow> int \<Rightarrow> string \<Rightarrow> string \<Rightarrow> int \<Rightarrow> metadata
   \<Rightarrow> review list \<times> (cell \<times> cell) set \<times> nat" where
  "scrape_by_type api tr a g review_type target_count md =
     scrape_loop api a g review_type target_count md ''*'' 0 [] tr 0"

subsection \<open>One game, all games, and the script\<close>

text \<open>
  \<open>scrape_game\<close>: the new reviews and the scraper after the call.
  \<open>fetch_game_metadata\<close> is a call to the store with its own extraction of the answer;
  here it is a function from the application to the dictionary it returns.
\<close>

definition add_stats :: "(string \<rightharpoonup> int \<times> int) \<Rightarrow> string \<Rightarrow> int \<Rightarrow> int \<Rightarrow> (string \<rightharpoonup> int \<times> int)" where
  "add_stats st g cp cn =
     (case st g of None \<Rightarrow> st(g \<mapsto> (0 + cp, 0 + cn)) | Some (p, n) \<Rightarrow> st(g \<mapsto> (p + cp, n + cn)))"

definition scrape_game ::
  "(int \<Rightarrow> metadata) \<Rightarrow> review_api \<Rightarrow> scraper \<Rightarrow> int \<Rightarrow> string \<Rightarrow> review list \<times> scraper" where
  "scrape_game fetch_game_metadata api s a g =
     (let nd = calculate_needed s g; needed_pos = positive nd; needed_neg = negative nd in
      if needed_pos = 0 \<and> needed_neg = 0 then ([], s)
      else
        let md = fetch_game_metadata a;
            (pos_reviews, tr1) =
              (if 0 < needed_pos
               then (case scrape_by_type api (existing_reviews s) a g ''positive'' needed_pos md of
                       (rs, tr, n) \<Rightarrow> (rs, tr))
               else ([], existing_reviews s));
            (neg_reviews, tr2) =
              (if 0 < needed_neg
               then (case scrape_by_type api tr1 a g ''negative'' needed_neg md of
                       (rs, tr, n) \<Rightarrow> (rs, tr))
               else ([], tr1))
        in (pos_reviews @ neg_reviews,
            s\<lparr>existing_reviews := tr2,
              game_stats := add_stats (game_stats s) g (int (length pos_reviews))
                              (int (length neg_reviews))\<rparr>))"

fun scrape_all_games ::
  "(int \<Rightarrow> metadata) \<Rightarrow> review_api \<Rightarrow> scraper \<Rightarrow> (int \<times> string) list \<Rightarrow> review list \<times> scraper" where
  "scrape_all_games fetch_game_metadata api s [] = ([], s)"
| "scrape_all_games fetch_game_metadata api s ((a, g) # game_ids) =
     (case scrape_game fetch_game_metadata api s a g of
        (new_reviews, s') \<Rightarrow>
          (case scrape_all_games fetch_game_metadata api s' game_ids of
             (later, s'') \<Rightarrow> (new_reviews @ later, s'')))"

text \<open>
  \<open>steam_collect\<close> is the list \<open>all_new_reviews\<close> of \<open>scrape_all_games\<close>, the new
  reviews of a run of \<open>main\<close> whose scraper was built from the data frame
  \<open>existing_file\<close>.
\<close>

definition steam_collect ::
  "review list option \<Rightarrow> int \<Rightarrow> (int \<times> string) list \<Rightarrow> (int \<Rightarrow> metadata) \<Rightarrow> review_api
   \<Rightarrow> review list" where
  "steam_collect existing_file tpg game_ids fetch_game_metadata api =
     fst (scrape_all_games fetch_game_metadata api (scraper_init existing_file tpg) game_ids)"

text \<open>
  \<open>main\<close>, with the game list and the target as parameters (\<open>GAME_IDS\<close> and
  \<open>TARGET_PER_GAME = 104\<close> in the source). \<open>existing_file\<close> is the content of
  \<open>cleaned_reviews.csv\<close> (\<open>None\<close> when there is no such file), \<open>answer\<close> what the
  operator types at the prompt, stripped and in lower case. The scraper reads the file
  with \<open>pd.read_csv\<close>; when the operator answers \<open>yes\<close>, \<open>main\<close> reads it again (line
  453) and concatenates what it has read with the new reviews. The result gives the
  data frames handed to \<open>to_csv\<close> for \<open>steam_additional_reviews.csv\<close> and for
  \<open>cleaned_reviews_updated.csv\<close>, \<open>None\<close> for a file that is not written: the second
  \<open>pd.read_csv\<close> raises when the existing file is missing, and nothing is written then.
  The whole result is \<open>None\<close> when the model does not decide the reading of the
  existing file or one of the two data frames.
\<close>

record steam_files =
  additional_reviews :: "review list option"
  reviews_updated :: "review list option"

text \<open>
  The first \<open>pd.read_csv\<close> of the existing file: \<open>Some None\<close> when there is no file
  (\<open>FileNotFoundError\<close>), \<open>None\<close> when the model does not decide the reading.
\<close>

definition read_existing :: "csv_row list option \<Rightarrow> review list option option" where
  "read_existing existing_file =
     (case existing_file of None \<Rightarrow> Some None | Some rows \<Rightarrow> map_option Some (read_csv rows))"

definition steam_main ::
  "csv_row list option \<Rightarrow> int \<Rightarrow> (int \<times> string) list \<Rightarrow> (int \<Rightarrow> metadata) \<Rightarrow> review_api \<Rightarrow> string
   \<Rightarrow> steam_files option" where
  "steam_main existing_file tpg game_ids fetch_game_metadata api answer =
     do {
       existing \<leftarrow> read_existing existing_file;
       df_new \<leftarrow> data_frame (steam_collect existing tpg game_ids fetch_game_metadata api);
       if 0 < length df_new then
         (if answer = ''yes'' then
            (case existing of
               None \<Rightarrow> Some \<lparr>additional_reviews = Some df_new, reviews_updated = None\<rparr>
             | Some df_existing \<Rightarrow>
                 do {
                   df_combined \<leftarrow> data_frame (df_existing @ df_new);
                   Some \<lparr>additional_reviews = Some df_new, reviews_updated = Some df_combined\<rparr>
                 })
          else Some \<lparr>additional_reviews = Some df_new, reviews_updated = None\<rparr>)
       else Some \<lparr>additional_reviews = None, reviews_updated = None\<rparr>
     }"

section \<open>The first Steam script (steam\_scr.py)\<close>

text \<open>
  The dictionary \<open>fetch_reviews_by_type\<close> appends (lines 238 to 246); the game and its
  metadata are added later by \<open>main\<close>.
\<close>

record fetched =
  f_app_id :: int
  f_user_id :: string
  f_review_text :: string
  f_voted_up :: bool
  f_votes_helpful :: int
  f_votes_funny :: int
  f_created :: int

definition fetched_row :: "int \<Rightarrow> string \<Rightarrow> raw_review \<Rightarrow> fetched option" where
  "fetched_row a txt r =
     (case (rr_steamid r, rr_voted_up r, rr_votes_up r, rr_votes_funny r, rr_timestamp_created r) of
        (Some uid, Some v, Some h, Some f, Some c) \<Rightarrow>
          Some \<lparr>f_app_id = a, f_user_id = uid, f_review_text = txt, f_voted_up = v,
                f_votes_helpful = h, f_votes_funny = f, f_created = c\<rparr>
      | _ \<Rightarrow> None)"

text \<open>The loop over one page (lines 234 to 249); the Boolean tells a raised \<open>KeyError\<close>.\<close>

fun collect_page :: "int \<Rightarrow> int \<Rightarrow> raw_review list \<Rightarrow> fetched list \<Rightarrow> bool \<times> fetched list" where
  "collect_page a num_reviews [] rs = (False, rs)"
| "collect_page a num_reviews (r # batch) rs =
     (let txt = (case rr_review r of None \<Rightarrow> [] | Some t \<Rightarrow> t) in
      if 10 < length txt then
        (case fetched_row a txt r of
           None \<Rightarrow> (True, rs)
         | Some row \<Rightarrow>
             if num_reviews \<le> int (length (rs @ [row])) then (False, rs @ [row])
             else collect_page a num_reviews batch (rs @ [row]))
      else collect_page a num_reviews batch rs)"

text \<open>
  The \<open>while\<close> loop of lines 211 to 259. It has no bound of its own, so it is a partial
  function: \<open>None\<close> is the run that never leaves the loop.
\<close>

partial_function (option) fetch_loop ::
  "review_api \<Rightarrow> int \<Rightarrow> string \<Rightarrow> int \<Rightarrow> string \<Rightarrow> fetched list \<Rightarrow> fetched list option" where
  "fetch_loop api a review_type num_reviews cur rs =
     (if int (length rs) < num_reviews then
        (case api a review_type cur of
           None \<Rightarrow> Some rs
         | Some resp \<Rightarrow>
             if status_code resp \<noteq> 200 then Some rs
             else if \<not> success resp then Some rs
             else if reviews resp = [] then Some rs
             else (case collect_page a num_reviews (reviews resp) rs of
                     (raised, rs') \<Rightarrow>
                       if raised then Some rs'
                       else (case cursor resp of
                               None \<Rightarrow> Some rs'
                             | Some c \<Rightarrow>
                                 if c = [] then Some rs'
                                 else fetch_loop api a review_type num_reviews c rs')))
      else Some rs)"

definition fetch_reviews_by_type :: "review_api \<Rightarrow> int \<Rightarrow> string \<Rightarrow> int \<Rightarrow> fetched list option" where
  "fetch_reviews_by_type api a review_type num_reviews =
     fetch_loop api a review_type num_reviews ''*'' []"

text \<open>
  The same loop with a budget of requests: \<open>None\<close> when the budget runs out before the
  loop ends.
\<close>

fun fetch_loop_fuel ::
  "nat \<Rightarrow> review_api \<Rightarrow> int \<Rightarrow> string \<Rightarrow> int \<Rightarrow> string \<Rightarrow> fetched list \<Rightarrow> fetched list option" where
  "fetch_loop_fuel 0 api a review_type num_reviews cur rs =
     (if int (length rs) < num_reviews then None else Some rs)"
| "fetch_loop_fuel (Suc k) api a review_type num_reviews cur rs =
     (if int (length rs) < num_reviews then
        (case api a review_type cur of
           None \<Rightarrow> Some rs
         | Some resp \<Rightarrow>
             if status_code resp \<noteq> 200 then Some rs
             else if \<not> success resp then Some rs
             else if reviews resp = [] then Some rs
             else (case collect_page a num_reviews (reviews resp) rs of
                     (raised, rs') \<Rightarrow>
                       if raised then Some rs'
                       else (case cursor resp of
                               None \<Rightarrow> Some rs'
                             | Some c \<Rightarrow>
                                 if c = [] then Some rs'
                                 else fetch_loop_fuel k api a review_type num_reviews c rs')))
      else Some rs)"

text \<open>
  The split of lines 266 to 268 (\<open>total\<close> reviews over \<open>num_games\<close> games): the pair
  (positive per game, negative per game). \<open>num_games\<close> is the length of a dictionary
  literal and is not zero.
\<close>

definition per_game_split :: "int \<Rightarrow> int \<times> int" where
  "per_game_split reviews_per_game =
     (let positive_per_game = reviews_per_game div 2;
          negative_per_game = reviews_per_game - positive_per_game
      in (positive_per_game, negative_per_game))"

definition steam_scr_plan :: "int \<Rightarrow> int \<Rightarrow> int \<times> int" where
  "steam_scr_plan total_reviews num_games = per_game_split (total_reviews div num_games)"

section \<open>The Metacritic collector (ENGLISH/metacritic/scrapper.py)\<close>

text \<open>The dictionary a review becomes (lines 272 to 278), and the row \<open>main\<close> makes of it.\<close>

record mc_review =
  mc_review_text :: string
  mc_user_score :: int
  mc_voted_up :: bool
  mc_author :: string
  mc_date :: string

record mc_row = mc_review +
  mc_game_name :: string
  mc_app_id :: int

text \<open>
  What the scraper reads from one \<open>c-siteReview\<close> element of the page: the score (the
  text of the span of \<open>c-siteReviewScore\<close> read by \<open>int\<close>; \<open>None\<close> when the element or
  the span is missing or \<open>int\<close> raises, three cases that all skip the review), the
  quoted text, the user name and the date, each \<open>None\<close> when its element is missing.
\<close>

record site_review =
  sr_score :: "int option"
  sr_quote :: "string option"
  sr_username :: "string option"
  sr_date :: "string option"

text \<open>
  The site: \<open>search\<close> is \<open>search_metacritic\<close> (the address of the game when the site
  answers 200 for it), \<open>page\<close> gives the review elements of an address, \<open>None\<close> when
  the status is not 200 or the request raises.
\<close>

record site =
  search :: "string \<Rightarrow> string option"
  page :: "string \<Rightarrow> site_review list option"

text \<open>
  The loop of lines 222 to 287 over the review elements, on the reviews collected so
  far, the tracker and the count of duplicates skipped.
\<close>

fun scan_reviews ::
  "string \<Rightarrow> string \<Rightarrow> int \<Rightarrow> site_review list \<Rightarrow> mc_review list \<Rightarrow> (string \<times> string) set \<Rightarrow> nat
   \<Rightarrow> mc_review list \<times> nat \<times> (string \<times> string) set" where
  "scan_reviews g sentiment num_reviews [] rs existing dups = (rs, dups, existing)"
| "scan_reviews g sentiment num_reviews (d # divs) rs existing dups =
     (case sr_score d of
        None \<Rightarrow> scan_reviews g sentiment num_reviews divs rs existing dups
      | Some sc \<Rightarrow>
          if sentiment = ''positive'' \<and> sc < 7
          then scan_reviews g sentiment num_reviews divs rs existing dups
          else if sentiment = ''negative'' \<and> sc > 4
          then scan_reviews g sentiment num_reviews divs rs existing dups
          else
            (case sr_quote d of
               None \<Rightarrow> scan_reviews g sentiment num_reviews divs rs existing dups
             | Some txt \<Rightarrow>
                 if length txt \<le> 10
                 then scan_reviews g sentiment num_reviews divs rs existing dups
                 else
                   let author = (case sr_username d of Some u \<Rightarrow> u | None \<Rightarrow> ''Anonymous'') in
                   if (author, g) \<in> existing
                   then scan_reviews g sentiment num_reviews divs rs existing (Suc dups)
                   else
                     let date = (case sr_date d of Some t \<Rightarrow> t | None \<Rightarrow> ''N/A'');
                         rs' = rs @ [\<lparr>mc_review_text = txt, mc_user_score = sc,
                                      mc_voted_up = (sc \<ge> 7), mc_author = author,
                                      mc_date = date\<rparr>];
                         existing' = insert (author, g) existing
                     in if num_reviews \<le> int (length rs') then (rs', dups, existing')
                        else scan_reviews g sentiment num_reviews divs rs' existing' dups))"

definition scrape_reviews_by_sentiment ::
  "site \<Rightarrow> (string \<times> string) set \<Rightarrow> string \<Rightarrow> string \<Rightarrow> string \<Rightarrow> int
   \<Rightarrow> mc_review list \<times> nat \<times> (string \<times> string) set" where
  "scrape_reviews_by_sentiment web existing game_url g sentiment num_reviews =
     (let reviews_url = (if CHR ''?'' \<notin> set game_url then game_url @ ''user-reviews/?platform=pc''
                         else game_url @ ''&platform=pc'') in
      case page web reviews_url of
        None \<Rightarrow> ([], 0, existing)
      | Some review_divs \<Rightarrow> scan_reviews g sentiment num_reviews review_divs [] existing 0)"

text \<open>
  \<open>load_existing_reviews\<close>: the tracker, the table and the count of rows. \<open>file\<close> is
  the table read from \<open>metacritic_reviews.csv\<close>, with the authors and games as the
  texts \<open>str\<close> makes of them, and \<open>None\<close> when the file does not exist.
\<close>

definition load_existing_reviews ::
  "mc_row list option \<Rightarrow> (string \<times> string) set \<times> mc_row list option \<times> int" where
  "load_existing_reviews file =
     (case file of
        Some df \<Rightarrow> (set (map (\<lambda>row. (mc_author row, mc_game_name row)) df), Some df, int (length df))
      | None \<Rightarrow> ({}, None, 0))"

definition TARGET_TOTAL :: int where
  "TARGET_TOTAL = 2500"

definition add_game :: "string \<Rightarrow> int \<Rightarrow> mc_review \<Rightarrow> mc_row" where
  "add_game g a r =
     \<lparr>mc_review_text = mc_review_text r, mc_user_score = mc_user_score r,
      mc_voted_up = mc_voted_up r, mc_author = mc_author r, mc_date = mc_date r,
      mc_game_name = g, mc_app_id = a\<rparr>"

text \<open>The loop over the games (lines 326 to 361).\<close>

fun games_loop ::
  "site \<Rightarrow> int \<Rightarrow> int \<Rightarrow> int \<Rightarrow> (int \<times> string) list \<Rightarrow> mc_row list \<Rightarrow> (string \<times> string) set
   \<Rightarrow> mc_row list \<times> (string \<times> string) set" where
  "games_loop web positive_per_game negative_per_game target_new [] all_new existing =
     (all_new, existing)"
| "games_loop web positive_per_game negative_per_game target_new ((a, g) # game_ids) all_new existing =
     (case search web g of
        None \<Rightarrow> games_loop web positive_per_game negative_per_game target_new game_ids all_new existing
      | Some game_url \<Rightarrow>
          (case scrape_reviews_by_sentiment web existing game_url g ''positive'' positive_per_game of
             (pos_reviews, pos_dups, existing1) \<Rightarrow>
               (case scrape_reviews_by_sentiment web existing1 game_url g ''negative'' negative_per_game of
                  (neg_reviews, neg_dups, existing2) \<Rightarrow>
                    let all_new' = all_new @ map (add_game g a) (pos_reviews @ neg_reviews) in
                    if target_new \<le> int (length all_new') then (all_new', existing2)
                    else games_loop web positive_per_game negative_per_game target_new game_ids
                           all_new' existing2)))"

datatype py_error = ZeroDivisionError | ValueError

text \<open>
  \<open>metacritic_collect\<close> is \<open>all_new_reviews\<close> after the loop over the games (lines 316
  to 361 of \<open>main\<close>), for a run that gets there; the game list is a parameter
  (\<open>GAME_IDS\<close> in the source).
\<close>

definition metacritic_collect :: "mc_row list option \<Rightarrow> (int \<times> string) list \<Rightarrow> site \<Rightarrow> mc_row list" where
  "metacritic_collect file game_ids web =
     (case load_existing_reviews file of
        (existing, existing_df, existing_count) \<Rightarrow>
          let target_new = TARGET_TOTAL - existing_count;
              num_games = int (length game_ids);
              reviews_per_game = target_new div num_games;
              (positive_per_game, negative_per_game) = per_game_split reviews_per_game
          in fst (games_loop web positive_per_game negative_per_game target_new game_ids [] existing))"








section \<open>The translation scripts\<close>

subsection \<open>\<open>TranslationPipeline\<close> (translate\_only.py)\<close>

text \<open>\<open>s.strip()\<close>.\<close>

definition py_strip :: "string \<Rightarrow> string" where
  "py_strip s = rev (dropWhile is_space (rev (dropWhile is_space s)))"

text \<open>
  \<open>re.sub(r"<[^>]+>", " ", s)\<close>: from the left, every \<open><\<close> followed by at least one
  character other than \<open>>\<close> and then by \<open>>\<close> is replaced, with what it encloses, by a
  blank.
\<close>

function sub_tags :: "string \<Rightarrow> string" where
  "sub_tags [] = []"
| "sub_tags (c # cs) =
     (if c = CHR ''<'' \<and> takeWhile (\<lambda>x. x \<noteq> CHR ''>'') cs \<noteq> [] \<and> dropWhile (\<lambda>x. x \<noteq> CHR ''>'') cs \<noteq> []
      then CHR '' '' # sub_tags (tl (dropWhile (\<lambda>x. x \<noteq> CHR ''>'') cs))
      else c # sub_tags cs)"
  by pat_completeness auto
termination
  by (relation "measure length")
     (auto simp: less_Suc_eq_le le_diff_conv intro: le_SucI length_dropWhile_le)

text \<open>
  \<open>strip_html\<close> for a text (the source maps \<open>None\<close> to the empty text first);
  \<open>html.unescape\<close> is a parameter.
\<close>

definition strip_html :: "(string \<Rightarrow> string) \<Rightarrow> string \<Rightarrow> string" where
  "strip_html unescape s = py_join '' '' (py_split (unescape (sub_tags s)))"

text \<open>
  One step of the loop of \<open>process_dataframe\<close> (lines 119 to 141) on a row: its cell
  of the review column (\<open>None\<close> for a missing value) and its other columns.
  \<open>translate_batch\<close> answers \<open>None\<close> when it raises; the indexing \<open>[0]\<close> of an empty
  answer raises inside the same \<open>try\<close>.
\<close>

definition translate_row ::
  "(string list \<Rightarrow> string list option) \<Rightarrow> (string \<Rightarrow> string) \<Rightarrow> string option \<times> 'a
   \<Rightarrow> string option \<times> 'a" where
  "translate_row translate_batch unescape row =
     (case fst row of
        None \<Rightarrow> row
      | Some original_text \<Rightarrow>
          if py_strip original_text = [] then row
          else
            let cleaned_input = strip_html unescape original_text;
                translated = (case translate_batch [cleaned_input] of
                                Some (t # ts) \<Rightarrow> t
                              | _ \<Rightarrow> cleaned_input)
            in (Some translated, snd row))"

definition process_dataframe ::
  "(string list \<Rightarrow> string list option) \<Rightarrow> (string \<Rightarrow> string) \<Rightarrow> (string option \<times> 'a) list
   \<Rightarrow> (string option \<times> 'a) list" where
  "process_dataframe translate_batch unescape df = map (translate_row translate_batch unescape) df"

subsection \<open>\<open>TranslationExtractionPipeline\<close> (pipeline.py)\<close>

definition count_words :: "string \<Rightarrow> int" where
  "count_words txt = int (length (py_split txt))"

text \<open>
  The body of the loop of \<open>extract_opinions_batch\<close> for one text. The summarizer is a
  function of the text (the length bounds it is called with are fixed by the
  pipeline); it answers \<open>None\<close> when the call, or reading \<open>summary[0]['summary_text']\<close>,
  raises.
\<close>

definition extract_opinion :: "int \<Rightarrow> int \<Rightarrow> (string \<Rightarrow> string option) \<Rightarrow> string \<Rightarrow> string" where
  "extract_opinion min_words max_words summarizer txt =
     (let word_count = count_words txt in
      if min_words \<le> word_count \<and> word_count \<le> max_words then txt
      else if word_count < min_words then txt
      else if word_count > max_words then
        (case summarizer txt of
           Some extracted \<Rightarrow>
             if count_words extracted > max_words
             then py_join '' '' (py_prefix max_words (py_split extracted))
             else extracted
         | None \<Rightarrow> py_join '' '' (py_prefix max_words (py_split txt)))
      else txt)"

definition extract_opinions_batch ::
  "int \<Rightarrow> int \<Rightarrow> (string \<Rightarrow> string option) \<Rightarrow> string list \<Rightarrow> string list" where
  "extract_opinions_batch min_words max_words summarizer texts =
     map (extract_opinion min_words max_words summarizer) texts"

record result =
  r_index :: int
  r_original :: string
  r_translated :: string
  r_final_opinion :: string
  r_word_count :: int

text \<open>
  One batch of \<open>process_reviews\<close> (lines 202 to 234), starting at index \<open>i\<close>.
\<close>

definition process_batch ::
  "int \<Rightarrow> int \<Rightarrow> (string list \<Rightarrow> string list option) \<Rightarrow> (string \<Rightarrow> string option) \<Rightarrow> int
   \<Rightarrow> string list \<Rightarrow> result list" where
  "process_batch min_words max_words translate_batch summarizer i batch =
     (let translations = (case translate_batch batch of
                            Some ts \<Rightarrow> ts
                          | None \<Rightarrow> replicate (length batch) ''[TRANSLATION_ERROR]'');
          opinions = extract_opinions_batch min_words max_words summarizer translations
      in map (\<lambda>(j, original, translated, opinion).
                \<lparr>r_index = i + int j, r_original = original, r_translated = translated,
                 r_final_opinion = opinion, r_word_count = count_words opinion\<rparr>)
             (zip [0..<length batch] (zip batch (zip translations opinions))))"

text \<open>The loop over the batches, for a positive batch size.\<close>

function process_from ::
  "int \<Rightarrow> int \<Rightarrow> (string list \<Rightarrow> string list option) \<Rightarrow> (string \<Rightarrow> string option) \<Rightarrow> nat \<Rightarrow> int
   \<Rightarrow> string list \<Rightarrow> result list" where
  "process_from min_words max_words translate_batch summarizer batch_size i rest =
     (if batch_size = 0 \<or> rest = [] then []
      else process_batch min_words max_words translate_batch summarizer i (take batch_size rest)
           @ process_from min_words max_words translate_batch summarizer batch_size
               (i + int batch_size) (drop batch_size rest))"
  by pat_completeness auto
termination
  by (relation "measure (\<lambda>(min_words, max_words, translate_batch, summarizer, batch_size, i, rest).
        length rest)") auto

text \<open>
  \<open>process_reviews\<close>: \<open>range(0, total, 0)\<close> raises \<open>ValueError\<close>, a negative step
  gives no batch, and the average of the statistics divides by the number of results.
\<close>

definition process_reviews ::
  "int \<Rightarrow> int \<Rightarrow> int \<Rightarrow> (string list \<Rightarrow> string list option) \<Rightarrow> (string \<Rightarrow> string option)
   \<Rightarrow> string list \<Rightarrow> py_error + result list" where
  "process_reviews batch_size min_words max_words translate_batch summarizer reviews_in =
     (if batch_size = 0 then Inl ValueError
      else
        let results = (if batch_size < 0 then []
                       else process_from min_words max_words translate_batch summarizer
                              (nat batch_size) 0 reviews_in)
        in if results = [] then Inl ZeroDivisionError else Inr results)"

section \<open>The record filter, one candidate at a time\<close>

text \<open>
  What the body of each loop decides for one candidate, given the tracker: the
  candidate is rejected, skipped as a duplicate, raises, or is accepted as a row. The
  lemmas \<open>process_page_step\<close> and \<open>scan_reviews_step\<close> below show that the loops
  translated from the source take exactly these decisions.
\<close>

datatype 'a verdict = Rejected | Duplicate | Raises | Accepted 'a

definition steam_verdict ::
  "string \<Rightarrow> int \<Rightarrow> metadata \<Rightarrow> (cell \<times> cell) set \<Rightarrow> raw_review \<Rightarrow> review verdict" where
  "steam_verdict g a md tr r =
     (let txt = (case rr_review r of None \<Rightarrow> [] | Some t \<Rightarrow> t) in
      case rr_steamid r of
        None \<Rightarrow> Raises
      | Some uid \<Rightarrow>
          if (Str uid, Str g) \<in> tr then Duplicate
          else if length (py_split txt) < 5 then Rejected
          else (case new_row g a md uid txt r of None \<Rightarrow> Raises | Some row \<Rightarrow> Accepted row))"

definition metacritic_verdict ::
  "string \<Rightarrow> string \<Rightarrow> (string \<times> string) set \<Rightarrow> site_review \<Rightarrow> mc_review verdict" where
  "metacritic_verdict g sentiment existing d =
     (case sr_score d of
        None \<Rightarrow> Rejected
      | Some sc \<Rightarrow>
          if sentiment = ''positive'' \<and> sc < 7 then Rejected
          else if sentiment = ''negative'' \<and> sc > 4 then Rejected
          else
            (case sr_quote d of
               None \<Rightarrow> Rejected
             | Some txt \<Rightarrow>
                 if length txt \<le> 10 then Rejected
                 else
                   let author = (case sr_username d of Some u \<Rightarrow> u | None \<Rightarrow> ''Anonymous'') in
                   if (author, g) \<in> existing then Duplicate
                   else Accepted \<lparr>mc_review_text = txt, mc_user_score = sc, mc_voted_up = (sc \<ge> 7),
                                  mc_author = author,
                                  mc_date = (case sr_date d of Some t \<Rightarrow> t | None \<Rightarrow> ''N/A'')\<rparr>))"

section \<open>Notions used in the statements\<close>

text \<open>
  What the loop of \<open>_scrape_by_type\<close> makes of an answer of the endpoint: no page (the
  loop ends), or the reviews of the page with the cursor to go on with, if any.
\<close>

definition usable :: "response option \<Rightarrow> (raw_review list \<times> string option) option" where
  "usable answer =
     (case answer of
        None \<Rightarrow> None
      | Some resp \<Rightarrow>
          if status_code resp \<noteq> 200 \<or> \<not> success resp \<or> reviews resp = [] then None
          else Some (reviews resp,
                     case cursor resp of
                       None \<Rightarrow> None
                     | Some c \<Rightarrow> if c = [] \<or> c = ''*'' then None else Some c))"




section \<open>Example inputs\<close>

text \<open>
  A row of a data frame: the reviewer as given, a positive review of a game, and one
  value for the four cells of the metadata.
\<close>

definition example_row :: "cell \<Rightarrow> string \<Rightarrow> string \<Rightarrow> cell \<Rightarrow> review" where
  "example_row uid g txt md =
     \<lparr>game_name = Str g, app_id = 1, price_usd = md, age_rating = md, game_mode = md,
      genres = md, user_id = uid, review_text = Str txt, voted_up = True,
      votes_helpful = 0, votes_funny = 0, created = 0\<rparr>"

definition example_raw :: "string \<Rightarrow> string \<Rightarrow> bool \<Rightarrow> raw_review" where
  "example_raw uid txt v =
     \<lparr>rr_review = Some txt, rr_steamid = Some uid, rr_voted_up = Some v, rr_votes_up = Some 0,
      rr_votes_funny = Some 0, rr_timestamp_created = Some 0\<rparr>"

definition three_positive :: "review list" where
  "three_positive =
     [example_row (Str ''u1'') ''G'' ''a very good game to play'' NaN,
      example_row (Str ''u2'') ''G'' ''a very good game to play'' NaN,
      example_row (Str ''u3'') ''G'' ''a very good game to play'' NaN]"

text \<open>
  A row of the file: the text of the reviewer, a positive review of a game, and one
  text for the four cells of the metadata. With \<open>N/A\<close> for these it is the row that
  the scraper writes for a review of a game whose metadata it could not fetch.
\<close>

definition example_csv :: "string \<Rightarrow> string \<Rightarrow> string \<Rightarrow> string \<Rightarrow> csv_row" where
  "example_csv uid g txt md =
     \<lparr>csv_game_name = g, csv_app_id = 1, csv_price_usd = md, csv_age_rating = md,
      csv_game_mode = md, csv_genres = md, csv_user_id = uid, csv_review_text = txt,
      csv_voted_up = True, csv_votes_helpful = 0, csv_votes_funny = 0, csv_created = 0\<rparr>"

definition example_div :: "int \<Rightarrow> string \<Rightarrow> site_review" where
  "example_div sc author =
     \<lparr>sr_score = Some sc, sr_quote = Some ''a long enough review'', sr_username = Some author,
      sr_date = None\<rparr>"

definition example_site :: "site_review list \<Rightarrow> site" where
  "example_site divs =
     \<lparr>search = (\<lambda>g. Some ''https://www.metacritic.com/game/g/''), page = (\<lambda>u. Some divs)\<rparr>"

definition example_mc_row :: "string \<Rightarrow> string \<Rightarrow> mc_row" where
  "example_mc_row author g =
     \<lparr>mc_review_text = ''a long enough review'', mc_user_score = 9, mc_voted_up = True,
      mc_author = author, mc_date = ''N/A'', mc_game_name = g, mc_app_id = 1\<rparr>"


text \<open>An endpoint with one page of positive reviews and no answer for other requests.\<close>

definition one_page :: "raw_review list \<Rightarrow> review_api" where
  "one_page rs =
     (\<lambda>a review_type cur.
        if review_type = ''positive''
        then Some \<lparr>status_code = 200, success = True, reviews = rs, cursor = None\<rparr>
        else None)"

text \<open>An endpoint that always answers with a page of one short review and a cursor.\<close>

definition endless :: review_api where
  "endless =
     (\<lambda>a review_type cur.
        Some \<lparr>status_code = 200, success = True, reviews = [example_raw ''u1'' ''too short'' True],
              cursor = Some ''next''\<rparr>)"

text \<open>An endpoint whose every request fails.\<close>

definition no_answer :: review_api where
  "no_answer = (\<lambda>a review_type cur. None)"

section \<open>The quota planner\<close>

text \<open>
  C3. For a game, the planner reads the current counts of the game from the statistics
  (zero for a game without rows) and computes \<open>needed = max(0, target - current)\<close> for
  each category, where the target of a category is half the target per game. The result
  is never negative and is zero for a category at or above its target. With a target
  of 10 per game and a game that has 3 positive and no negative rows it computes 2
  positive and 5 negative. A game that needs nothing is skipped by \<open>scrape_game\<close>
  (no new review, no change of state), and a category that needs nothing is not
  fetched: the new reviews are those of the fetch of the other category.
\<close>

theorem quota_planner_needed:
  "(let nd = calculate_needed s g; t = target_per_game s div 2 in
     (current_positive nd, current_negative nd) = (case game_stats s g of Some pn \<Rightarrow> pn | None \<Rightarrow> (0, 0))
     \<and> positive nd = max 0 (t - current_positive nd)
     \<and> negative nd = max 0 (t - current_negative nd)
     \<and> 0 \<le> positive nd \<and> 0 \<le> negative nd
     \<and> (t \<le> current_positive nd \<longrightarrow> positive nd = 0)
     \<and> (t \<le> current_negative nd \<longrightarrow> negative nd = 0)
     \<and> (target_per_game s = 10 \<and> current_positive nd = 3 \<and> current_negative nd = 0
          \<longrightarrow> positive nd = 2 \<and> negative nd = 5)
     \<and> (positive nd = 0 \<and> negative nd = 0 \<longrightarrow> scrape_game fm api s a g = ([], s))
     \<and> (positive nd = 0 \<and> negative nd \<noteq> 0 \<longrightarrow>
          fst (scrape_game fm api s a g)
            = fst (scrape_by_type api (existing_reviews s) a g ''negative'' (negative nd) (fm a)))
     \<and> (positive nd \<noteq> 0 \<and> negative nd = 0 \<longrightarrow>
          fst (scrape_game fm api s a g)
            = fst (scrape_by_type api (existing_reviews s) a g ''positive'' (positive nd) (fm a))))"
proof -
  have cur: "(current_positive (calculate_needed s g), current_negative (calculate_needed s g))
      = (case game_stats s g of Some pn \<Rightarrow> pn | None \<Rightarrow> (0, 0))"
    by (simp add: calculate_needed_def Let_def split: option.splits prod.splits)
  have pos: "positive (calculate_needed s g)
      = max 0 (target_per_game s div 2 - current_positive (calculate_needed s g))"
    by (simp add: calculate_needed_def Let_def split: option.splits prod.splits)
  have neg: "negative (calculate_needed s g)
      = max 0 (target_per_game s div 2 - current_negative (calculate_needed s g))"
    by (simp add: calculate_needed_def Let_def split: option.splits prod.splits)
  have skip: "positive (calculate_needed s g) = 0 \<and> negative (calculate_needed s g) = 0
      \<longrightarrow> scrape_game fm api s a g = ([], s)"
    by (simp add: scrape_game_def Let_def)
  have only_neg: "positive (calculate_needed s g) = 0 \<and> negative (calculate_needed s g) \<noteq> 0 \<longrightarrow>
      fst (scrape_game fm api s a g)
        = fst (scrape_by_type api (existing_reviews s) a g ''negative''
                 (negative (calculate_needed s g)) (fm a))"
    using neg by (auto simp: scrape_game_def Let_def split: prod.splits)
  have only_pos: "positive (calculate_needed s g) \<noteq> 0 \<and> negative (calculate_needed s g) = 0 \<longrightarrow>
      fst (scrape_game fm api s a g)
        = fst (scrape_by_type api (existing_reviews s) a g ''positive''
                 (positive (calculate_needed s g)) (fm a))"
    using pos by (auto simp: scrape_game_def Let_def split: prod.splits)
  show ?thesis
    unfolding Let_def using cur pos neg skip only_neg only_pos by (simp add: max_def)
qed

text \<open>
  The example of the specification (target 10, three positive rows), a game whose
  positive target of 3 is met (only the negative category is fetched), and a game that
  needs nothing (target 6 with three positive and three negative rows).
\<close>

theorem quota_planner_needed_witness:
  "target_per_game (scraper_init (Some three_positive) 10) = 10
   \<and> game_stats (scraper_init (Some three_positive) 10) ''G'' = Some (3, 0)
   \<and> positive (calculate_needed (scraper_init (Some three_positive) 10) ''G'') = 2
   \<and> negative (calculate_needed (scraper_init (Some three_positive) 10) ''G'') = 5
   \<and> positive (calculate_needed (scraper_init (Some three_positive) 6) ''G'') = 0
   \<and> negative (calculate_needed (scraper_init (Some three_positive) 6) ''G'') = 3
   \<and> fst (scrape_game (\<lambda>a. []) no_answer (scraper_init (Some three_positive) 6) 1 ''G'')
       = fst (scrape_by_type no_answer (existing_reviews (scraper_init (Some three_positive) 6)) 1 ''G''
                ''negative'' 3 [])
   \<and> scrape_game (\<lambda>a. []) no_answer (scraper_init (Some three_positive) 0) 1 ''G''
       = ([], scraper_init (Some three_positive) 0)"
proof -
  have st: "game_stats (scraper_init (Some three_positive) t) ''G'' = Some (3, 0)" for t
    by (simp add: scraper_init_def stats_of_def pos_count_def neg_count_def three_positive_def
          example_row_def)
  have tg: "target_per_game (scraper_init (Some three_positive) t) = t" for t
    by (simp add: scraper_init_def)
  have cp: "current_positive (calculate_needed (scraper_init (Some three_positive) t) ''G'') = 3"
    and cn: "current_negative (calculate_needed (scraper_init (Some three_positive) t) ''G'') = 0" for t
    using st [of t] by (simp_all add: calculate_needed_def Let_def)
  show ?thesis
    using quota_planner_needed [of "scraper_init (Some three_positive) 10" "''G''"]
      quota_planner_needed [of "scraper_init (Some three_positive) 6" "''G''" "\<lambda>a. []" no_answer 1]
      quota_planner_needed [of "scraper_init (Some three_positive) 0" "''G''" "\<lambda>a. []" no_answer 1]
      st tg cp cn
    by (simp add: Let_def)
qed

section \<open>The loops and the record filter\<close>

lemma new_row_key:
  "new_row g a md uid txt r = Some row \<Longrightarrow> user_id row = Str uid \<and> game_name row = Str g"
  by (auto simp: new_row_def split: option.splits)

lemma process_page_step:
  "process_page g a md tc (r # batch) rs tr =
     (case steam_verdict g a md tr r of
        Rejected \<Rightarrow> process_page g a md tc batch rs tr
      | Duplicate \<Rightarrow> process_page g a md tc batch rs tr
      | Raises \<Rightarrow> (True, rs, tr)
      | Accepted row \<Rightarrow>
          if tc \<le> int (length (rs @ [row])) then (False, rs @ [row], insert (user_id row, Str g) tr)
          else process_page g a md tc batch (rs @ [row]) (insert (user_id row, Str g) tr))"
  by (auto simp: steam_verdict_def Let_def split: option.splits dest: new_row_key)

lemma scan_reviews_step:
  "scan_reviews g sentiment n (d # divs) rs existing dups =
     (case metacritic_verdict g sentiment existing d of
        Rejected \<Rightarrow> scan_reviews g sentiment n divs rs existing dups
      | Duplicate \<Rightarrow> scan_reviews g sentiment n divs rs existing (Suc dups)
      | Raises \<Rightarrow> scan_reviews g sentiment n divs rs existing dups
      | Accepted row \<Rightarrow>
          if n \<le> int (length (rs @ [row])) then (rs @ [row], dups, insert (mc_author row, g) existing)
          else scan_reviews g sentiment n divs (rs @ [row]) (insert (mc_author row, g) existing) dups)"
  by (simp add: metacritic_verdict_def Let_def split: option.splits)

section \<open>The neutral band\<close>

lemma metacritic_verdict_score:
  "metacritic_verdict g sentiment existing d = Accepted row \<Longrightarrow>
   (sentiment = ''positive'' \<longrightarrow> 7 \<le> mc_user_score row) \<and>
   (sentiment = ''negative'' \<longrightarrow> mc_user_score row \<le> 4)"
  by (auto simp: metacritic_verdict_def Let_def split: option.splits if_splits)

lemma scan_reviews_all:
  assumes "list_all P rs"
    and "\<And>ex d row. metacritic_verdict g sentiment ex d = Accepted row \<Longrightarrow> P row"
  shows "list_all P (fst (scan_reviews g sentiment n divs rs existing dups))"
  using assms(1)
proof (induction divs arbitrary: rs existing dups)
  case Nil
  then show ?case by simp
next
  case (Cons d divs)
  show ?case
  proof (cases "metacritic_verdict g sentiment existing d")
    case (Accepted row)
    then have "P row" by (rule assms(2))
    with Cons Accepted show ?thesis
      by (simp only: scan_reviews_step verdict.case) (simp add: Cons.IH)
  qed (simp_all only: scan_reviews_step verdict.case Cons.IH [OF Cons.prems])
qed

text \<open>
  C5. In a fetch of the positive or of the negative category, a candidate whose score
  lies strictly between the negative threshold 4 and the positive threshold 7 (a score
  of 5 or 6) is passed over: the loop continues with the next candidate in the same
  state. Hence no review returned by \<open>scrape_reviews_by_sentiment\<close> for either
  category has such a score.
\<close>

theorem neutral_band_never_accepted:
  assumes "sentiment = ''positive'' \<or> sentiment = ''negative''"
  shows "(sr_score d = Some sc \<and> 4 < sc \<and> sc < 7 \<longrightarrow>
            scan_reviews g sentiment n (d # divs) rs existing dups
              = scan_reviews g sentiment n divs rs existing dups)
         \<and> (\<forall>r \<in> set (fst (scrape_reviews_by_sentiment web existing url g sentiment n)).
               \<not> (4 < mc_user_score r \<and> mc_user_score r < 7))"
proof -
  let ?P = "\<lambda>r. (sentiment = ''positive'' \<longrightarrow> 7 \<le> mc_user_score r)
                \<and> (sentiment = ''negative'' \<longrightarrow> mc_user_score r \<le> 4)"
  have "list_all ?P (fst (scan_reviews g sentiment n divs' [] existing 0))" for divs'
    by (rule scan_reviews_all) (simp_all add: metacritic_verdict_score)
  then have "list_all ?P (fst (scrape_reviews_by_sentiment web existing url g sentiment n))"
    by (simp add: scrape_reviews_by_sentiment_def Let_def split: option.splits)
  then have all: "\<forall>r \<in> set (fst (scrape_reviews_by_sentiment web existing url g sentiment n)).
               \<not> (4 < mc_user_score r \<and> mc_user_score r < 7)"
    using assms by (auto simp: list_all_iff)
  have skip: "sr_score d = Some sc \<and> 4 < sc \<and> sc < 7 \<longrightarrow>
            scan_reviews g sentiment n (d # divs) rs existing dups
              = scan_reviews g sentiment n divs rs existing dups"
    using assms by auto
  from skip all show ?thesis by blast
qed

text \<open>
  A page with the scores 5, 9, 6 and 2: the positive fetch keeps the 9, the negative
  fetch keeps the 2, and a candidate with score 5 or 6 at the head of a page changes
  nothing.
\<close>

theorem neutral_band_never_accepted_witness:
  "map mc_user_score
     (fst (scrape_reviews_by_sentiment
        (example_site [example_div 5 ''bob'', example_div 9 ''alice'', example_div 6 ''carol'', example_div 2 ''dave''])
        {} ''u/'' ''G'' ''positive'' 3)) = [9]
   \<and> map mc_user_score
     (fst (scrape_reviews_by_sentiment
        (example_site [example_div 5 ''bob'', example_div 9 ''alice'', example_div 6 ''carol'', example_div 2 ''dave''])
        {} ''u/'' ''G'' ''negative'' 3)) = [2]
   \<and> scan_reviews ''G'' ''positive'' 3 [example_div 5 ''bob'', example_div 9 ''alice''] [] {} 0
       = scan_reviews ''G'' ''positive'' 3 [example_div 9 ''alice''] [] {} 0
   \<and> scan_reviews ''G'' ''negative'' 3 [example_div 6 ''bob'', example_div 9 ''alice''] [] {} 0
       = scan_reviews ''G'' ''negative'' 3 [example_div 9 ''alice''] [] {} 0"
  using neutral_band_never_accepted [of "''positive''" "example_div 5 ''bob''" 5 "''G''" 3
          "[example_div 9 ''alice'']" "[]" "{}" 0]
        neutral_band_never_accepted [of "''negative''" "example_div 6 ''bob''" 6 "''G''" 3
          "[example_div 9 ''alice'']" "[]" "{}" 0]
  by (simp add: scrape_reviews_by_sentiment_def example_site_def example_div_def Let_def)

section \<open>The split of a total into two categories\<close>

text \<open>
  C6, as stated, fails for the planner of \<open>SmartSteamScraper\<close>: with a target of 5
  reviews per game and a game without rows, the two targets are 2 and 2, and their sum
  is 4.
\<close>

theorem split_sums_to_total_counterexample:
  "positive (calculate_needed (scraper_init None 5) ''G'') = 2
   \<and> negative (calculate_needed (scraper_init None 5) ''G'') = 2
   \<and> positive (calculate_needed (scraper_init None 5) ''G'')
       + negative (calculate_needed (scraper_init None 5) ''G'') \<noteq> 5"
  by (simp add: calculate_needed_def scraper_init_def Let_def)

text \<open>
  C6, amended. The scripts that split a total per game (\<open>main\<close> of steam\_scr.py and of
  the Metacritic scraper) give \<open>T div 2\<close> to the positive category and the rest,
  \<open>T - T div 2\<close>, to the negative one, so the two targets sum to \<open>T\<close>. The planner of
  \<open>SmartSteamScraper\<close> targets \<open>T div 2\<close> in both categories: for a game without rows
  and a target \<open>T \<ge> 0\<close> the two amounts needed are \<open>T div 2\<close> each, and they sum to
  \<open>T\<close> when \<open>T\<close> is even and to \<open>T - 1\<close> when it is odd.
\<close>

theorem split_of_total:
  "per_game_split T = (T div 2, T - T div 2)
   \<and> fst (per_game_split T) + snd (per_game_split T) = T
   \<and> steam_scr_plan total_reviews num_games
       = (total_reviews div num_games div 2, total_reviews div num_games - total_reviews div num_games div 2)
   \<and> (game_stats s g = None \<and> 0 \<le> target_per_game s \<longrightarrow>
        positive (calculate_needed s g) = target_per_game s div 2
        \<and> negative (calculate_needed s g) = target_per_game s div 2
        \<and> positive (calculate_needed s g) + negative (calculate_needed s g)
            = target_per_game s - target_per_game s mod 2)"
proof -
  have "game_stats s g = None \<and> 0 \<le> target_per_game s \<longrightarrow>
        positive (calculate_needed s g) = target_per_game s div 2
        \<and> negative (calculate_needed s g) = target_per_game s div 2"
    by (simp add: calculate_needed_def Let_def max_def)
  moreover have "2 * (target_per_game s div 2) = target_per_game s - target_per_game s mod 2"
    by presburger
  ultimately show ?thesis
    by (simp add: per_game_split_def steam_scr_plan_def Let_def)
qed

text \<open>
  The totals 25 (odd) and 104 (the target of the source): \<open>per_game_split\<close> gives 12
  and 13; the planner needs 12 and 12 of 25, and 52 and 52 of 104.
\<close>

theorem split_of_total_witness:
  "per_game_split 25 = (12, 13)
   \<and> steam_scr_plan 2500 100 = (12, 13)
   \<and> game_stats (scraper_init None 25) ''G'' = None
   \<and> positive (calculate_needed (scraper_init None 25) ''G'') = 12
   \<and> negative (calculate_needed (scraper_init None 25) ''G'') = 12
   \<and> positive (calculate_needed (scraper_init None 104) ''G'')
       + negative (calculate_needed (scraper_init None 104) ''G'') = 104"
  using split_of_total [of 25 2500 100 "scraper_init None 25" "''G''"]
        split_of_total [of 25 2500 100 "scraper_init None 104" "''G''"]
  by (simp add: scraper_init_def)

section \<open>The fallback of a failed translation\<close>

text \<open>
  C8, as stated, fails in both scripts. In pipeline.py a batch whose translation raises
  gets the marker \<open>[TRANSLATION_ERROR]\<close> in place of every text, not the original
  text. In translate\_only.py the fallback is the text after \<open>strip_html\<close>, which
  differs from the original text when that contains tags or untidy whitespace.
\<close>

theorem translation_fallback_counterexample:
  "process_reviews 8 5 300 (\<lambda>batch. None) (\<lambda>t. None) [''hello world'']
     = Inr [\<lparr>r_index = 0, r_original = ''hello world'', r_translated = ''[TRANSLATION_ERROR]'',
             r_final_opinion = ''[TRANSLATION_ERROR]'', r_word_count = 1\<rparr>]
   \<and> ''[TRANSLATION_ERROR]'' \<noteq> ''hello world''
   \<and> process_dataframe (\<lambda>batch. None) (\<lambda>s. s) [(Some ''<b>hi</b>  there'', ())]
     = [(Some ''hi there'', ())]
   \<and> ''hi there'' \<noteq> ''<b>hi</b>  there''"
  by (simp add: process_reviews_def process_batch_def extract_opinions_batch_def
        extract_opinion_def count_words_def py_split_def is_space_def Let_def
        process_dataframe_def translate_row_def strip_html_def py_strip_def)

lemma process_batch_failed:
  assumes "translate_batch batch = None"
  shows "map r_translated (process_batch min_words max_words translate_batch summarizer i batch)
           = replicate (length batch) ''[TRANSLATION_ERROR]''"
    and "map r_original (process_batch min_words max_words translate_batch summarizer i batch) = batch"
proof -
  let ?ts = "replicate (length batch) ''[TRANSLATION_ERROR]''"
  let ?os = "extract_opinions_batch min_words max_words summarizer ?ts"
  have len: "length ?os = length batch"
    by (simp add: extract_opinions_batch_def)
  have "map r_translated (process_batch min_words max_words translate_batch summarizer i batch)
          = map (\<lambda>(j, original, translated, opinion). translated)
              (zip [0..<length batch] (zip batch (zip ?ts ?os)))"
    using assms by (simp add: process_batch_def Let_def case_prod_unfold)
  also have "\<dots> = ?ts"
    using len by (intro nth_equalityI) simp_all
  finally show "map r_translated (process_batch min_words max_words translate_batch summarizer i batch)
           = ?ts" .
  have "map r_original (process_batch min_words max_words translate_batch summarizer i batch)
          = map (\<lambda>(j, original, translated, opinion). original)
              (zip [0..<length batch] (zip batch (zip ?ts ?os)))"
    using assms by (simp add: process_batch_def Let_def case_prod_unfold)
  also have "\<dots> = batch"
    using len by (intro nth_equalityI) simp_all
  finally show "map r_original (process_batch min_words max_words translate_batch summarizer i batch)
           = batch" .
qed

lemma process_from_next:
  "0 < batch_size \<Longrightarrow> rest \<noteq> [] \<Longrightarrow>
   process_from min_words max_words translate_batch summarizer batch_size i rest
     = process_batch min_words max_words translate_batch summarizer i (take batch_size rest)
       @ process_from min_words max_words translate_batch summarizer batch_size
           (i + int batch_size) (drop batch_size rest)"
  by (subst process_from.simps) simp

text \<open>
  C8, amended. When the translation of a text raises, the failure does not propagate
  and the remaining texts are processed. In translate\_only.py the row gets the text
  after \<open>strip_html\<close> (tags removed, entities unescaped, whitespace normalised), which
  is the original text when that is already clean; every row is processed on its own,
  so the table keeps its length and the rows around a failure are translated as usual.
  In pipeline.py every text of the batch whose translation raises gets the marker
  \<open>[TRANSLATION_ERROR]\<close> while its original text is kept in its own field, and the
  loop goes on with the next batch.
\<close>

theorem translation_fallback:
  "(py_strip txt \<noteq> [] \<and> translate_one [strip_html unescape txt] = None \<longrightarrow>
      translate_row translate_one unescape (Some txt, other) = (Some (strip_html unescape txt), other)
      \<and> (strip_html unescape txt = txt \<longrightarrow>
           translate_row translate_one unescape (Some txt, other) = (Some txt, other)))
   \<and> process_dataframe translate_one unescape (before @ row # after)
       = process_dataframe translate_one unescape before
         @ translate_row translate_one unescape row
         # process_dataframe translate_one unescape after
   \<and> length (process_dataframe translate_one unescape df) = length df
   \<and> (translate_batch batch = None \<longrightarrow>
        map r_translated (process_batch min_words max_words translate_batch summarizer i batch)
          = replicate (length batch) ''[TRANSLATION_ERROR]''
        \<and> map r_original (process_batch min_words max_words translate_batch summarizer i batch) = batch)
   \<and> (0 < batch_size \<and> rest \<noteq> [] \<longrightarrow>
        process_from min_words max_words translate_batch summarizer batch_size i rest
          = process_batch min_words max_words translate_batch summarizer i (take batch_size rest)
            @ process_from min_words max_words translate_batch summarizer batch_size
                (i + int batch_size) (drop batch_size rest))"
proof -
  have row: "py_strip txt \<noteq> [] \<and> translate_one [strip_html unescape txt] = None \<longrightarrow>
      translate_row translate_one unescape (Some txt, other) = (Some (strip_html unescape txt), other)"
    by (simp add: translate_row_def Let_def)
  have df: "process_dataframe translate_one unescape (before @ row # after)
       = process_dataframe translate_one unescape before
         @ translate_row translate_one unescape row
         # process_dataframe translate_one unescape after"
    by (simp add: process_dataframe_def)
  have len: "length (process_dataframe translate_one unescape df) = length df"
    by (simp add: process_dataframe_def)
  have clean: "py_strip txt \<noteq> [] \<and> translate_one [strip_html unescape txt] = None \<longrightarrow>
      strip_html unescape txt = txt \<longrightarrow>
      translate_row translate_one unescape (Some txt, other) = (Some txt, other)"
    using row by auto
  have failed: "translate_batch batch = None \<longrightarrow>
        map r_translated (process_batch min_words max_words translate_batch summarizer i batch)
          = replicate (length batch) ''[TRANSLATION_ERROR]''
        \<and> map r_original (process_batch min_words max_words translate_batch summarizer i batch) = batch"
    using process_batch_failed [of translate_batch batch min_words max_words summarizer i] by simp
  have continues: "0 < batch_size \<and> rest \<noteq> [] \<longrightarrow>
        process_from min_words max_words translate_batch summarizer batch_size i rest
          = process_batch min_words max_words translate_batch summarizer i (take batch_size rest)
            @ process_from min_words max_words translate_batch summarizer batch_size
                (i + int batch_size) (drop batch_size rest)"
    using process_from_next [of batch_size rest min_words max_words translate_batch summarizer i]
    by simp
  show ?thesis
    by (intro conjI) (use row clean df len failed continues in blast)+
qed

text \<open>
  Three rows of which the second fails to translate, and two batches of two texts of
  which the first fails.
\<close>

theorem translation_fallback_witness:
  "process_dataframe (\<lambda>batch. if batch = [''bad text''] then None else Some [''T''])
       (\<lambda>s. s) [(Some ''one'', ()), (Some ''bad text'', ()), (Some ''two'', ())]
     = [(Some ''T'', ()), (Some ''bad text'', ()), (Some ''T'', ())]
   \<and> map r_translated
       (process_from 1 3 (\<lambda>batch. if batch = [''a'', ''b''] then None else Some [''C'', ''D''])
          (\<lambda>t. None) 2 0 [''a'', ''b'', ''c'', ''d''])
     = [''[TRANSLATION_ERROR]'', ''[TRANSLATION_ERROR]'', ''C'', ''D'']
   \<and> map r_original
       (process_from 1 3 (\<lambda>batch. if batch = [''a'', ''b''] then None else Some [''C'', ''D''])
          (\<lambda>t. None) 2 0 [''a'', ''b'', ''c'', ''d''])
     = [''a'', ''b'', ''c'', ''d'']"
proof -
  let ?tb = "\<lambda>batch. if batch = [''a'', ''b''] then None else Some [''C'', ''D'']"
  let ?t1 = "\<lambda>batch. if batch = [''bad text''] then None else Some [''T'']"
  have clean: "strip_html (\<lambda>s. s) ''bad text'' = ''bad text''"
    by (simp add: strip_html_def py_split_def is_space_def)
  have strip: "py_strip ''bad text'' \<noteq> []"
    by (simp add: py_strip_def is_space_def)
  have second: "process_from 1 3 ?tb (\<lambda>t. None) 2 2 [''c'', ''d'']
      = process_batch 1 3 ?tb (\<lambda>t. None) 2 [''c'', ''d'']"
    by (subst process_from.simps, subst process_from.simps) simp
  have cd: "map r_translated (process_batch 1 3 ?tb (\<lambda>t. None) 2 [''c'', ''d'']) = [''C'', ''D'']"
       "map r_original (process_batch 1 3 ?tb (\<lambda>t. None) 2 [''c'', ''d'']) = [''c'', ''d'']"
    by (simp_all add: process_batch_def extract_opinions_batch_def Let_def)
  have rows: "translate_row ?t1 (\<lambda>s. s) (Some ''one'', ()) = (Some ''T'', ())"
       "translate_row ?t1 (\<lambda>s. s) (Some ''two'', ()) = (Some ''T'', ())"
    by (simp_all add: translate_row_def strip_html_def py_split_def py_strip_def is_space_def Let_def)
  show ?thesis
    using translation_fallback [of "''bad text''" ?t1 "\<lambda>s. s" "()" "[(Some ''one'', ())]"
            "(Some ''bad text'', ())" "[(Some ''two'', ())]" "[]" ?tb "[''a'', ''b'']" 1 3 "\<lambda>t. None" 0
            2 "[''a'', ''b'', ''c'', ''d'']"]
          clean strip second cd rows
    by (simp add: process_dataframe_def)
qed

section \<open>Words\<close>

lemma words_acc_append:
  "\<forall>c \<in> set u. \<not> is_space c \<Longrightarrow> words_acc w (u @ s) = words_acc (w @ u) s"
  by (induction u arbitrary: w) simp_all

lemma words_acc_words:
  "\<forall>c \<in> set w. \<not> is_space c \<Longrightarrow>
   \<forall>x \<in> set (words_acc w s). x \<noteq> [] \<and> (\<forall>c \<in> set x. \<not> is_space c)"
proof (induction s arbitrary: w)
  case Nil
  then show ?case by simp
next
  case (Cons a s)
  show ?case
  proof (cases "is_space a")
    case True
    with Cons.prems Cons.IH [of "[]"] show ?thesis by simp
  next
    case False
    with Cons.prems Cons.IH [of "w @ [a]"] show ?thesis by simp
  qed
qed

lemma py_split_words:
  "x \<in> set (py_split s) \<Longrightarrow> x \<noteq> [] \<and> (\<forall>c \<in> set x. \<not> is_space c)"
  using words_acc_words [of "[]" s] by (simp add: py_split_def)

lemma py_split_join:
  "\<forall>x \<in> set ws. x \<noteq> [] \<and> (\<forall>c \<in> set x. \<not> is_space c) \<Longrightarrow> py_split (py_join '' '' ws) = ws"
proof (induction "'' ''" ws rule: py_join.induct)
  case 1
  then show ?case by (simp add: py_split_def)
next
  case (2 w)
  then show ?case
    using words_acc_append [of w "[]" "[]"] by (simp add: py_split_def)
next
  case (3 w v ws)
  have "words_acc [] (w @ '' '' @ py_join '' '' (v # ws))
          = words_acc w ('' '' @ py_join '' '' (v # ws))"
    using 3 words_acc_append [of w "[]"] by simp
  also have "\<dots> = w # words_acc [] (py_join '' '' (v # ws))"
    using 3 by (simp add: is_space_def)
  finally show ?case
    using 3 by (simp add: py_split_def)
qed

lemma count_words_truncated:
  assumes "0 \<le> n"
  shows "py_split (py_join '' '' (py_prefix n (py_split s))) = take (nat n) (py_split s)"
    and "count_words (py_join '' '' (py_prefix n (py_split s))) \<le> n"
proof -
  have "\<forall>x \<in> set (take (nat n) (py_split s)). x \<noteq> [] \<and> (\<forall>c \<in> set x. \<not> is_space c)"
    using py_split_words by (meson in_set_takeD)
  then show "py_split (py_join '' '' (py_prefix n (py_split s))) = take (nat n) (py_split s)"
    using assms by (simp add: py_prefix_def py_split_join)
  then show "count_words (py_join '' '' (py_prefix n (py_split s))) \<le> n"
    using assms by (simp add: count_words_def)
qed

section \<open>The word bound of the opinion extraction\<close>

lemma extract_opinion_bound:
  assumes "min_words \<le> max_words" and "0 \<le> max_words"
  shows "count_words (extract_opinion min_words max_words summarizer txt) \<le> max_words"
proof (cases "count_words txt \<le> max_words")
  case True
  then show ?thesis by (simp add: extract_opinion_def Let_def)
next
  case False
  with assms have "extract_opinion min_words max_words summarizer txt =
      (case summarizer txt of
         Some extracted \<Rightarrow>
           if count_words extracted > max_words
           then py_join '' '' (py_prefix max_words (py_split extracted))
           else extracted
       | None \<Rightarrow> py_join '' '' (py_prefix max_words (py_split txt)))"
    by (simp add: extract_opinion_def Let_def)
  then show ?thesis
    using count_words_truncated(2)[OF assms(2)] by (simp split: option.splits)
qed

text \<open>
  C10. For a pipeline with \<open>0 \<le> max_words\<close> and \<open>min_words \<le> max_words\<close> (the
  source runs with 5 and 300), every element of the list returned by
  \<open>extract_opinions_batch\<close> has at most \<open>max_words\<close> words, and the list has one
  element per text. A text within the bounds or below \<open>min_words\<close> is returned
  unchanged. A text of more than \<open>max_words\<close> words is summarised; when the summary
  still has more than \<open>max_words\<close> words it is cut to its first \<open>max_words\<close> words, and
  when the summariser raises the text itself is cut to its first \<open>max_words\<close> words.
\<close>

theorem extract_opinions_word_bound:
  assumes "min_words \<le> max_words" and "0 \<le> max_words"
  shows "(\<forall>opinion \<in> set (extract_opinions_batch min_words max_words summarizer texts).
            count_words opinion \<le> max_words)
         \<and> length (extract_opinions_batch min_words max_words summarizer texts) = length texts
         \<and> ((min_words \<le> count_words txt \<and> count_words txt \<le> max_words) \<or> count_words txt < min_words
              \<longrightarrow> extract_opinion min_words max_words summarizer txt = txt)
         \<and> (max_words < count_words txt \<longrightarrow>
              extract_opinion min_words max_words summarizer txt =
                (case summarizer txt of
                   Some extracted \<Rightarrow>
                     if max_words < count_words extracted
                     then py_join '' '' (take (nat max_words) (py_split extracted))
                     else extracted
                 | None \<Rightarrow> py_join '' '' (take (nat max_words) (py_split txt))))
         \<and> py_split (py_join '' '' (take (nat max_words) (py_split txt)))
              = take (nat max_words) (py_split txt)"
proof -
  have bound: "\<forall>opinion \<in> set (extract_opinions_batch min_words max_words summarizer texts).
            count_words opinion \<le> max_words"
    using extract_opinion_bound [OF assms] by (auto simp: extract_opinions_batch_def)
  have len: "length (extract_opinions_batch min_words max_words summarizer texts) = length texts"
    by (simp add: extract_opinions_batch_def)
  have same: "(min_words \<le> count_words txt \<and> count_words txt \<le> max_words) \<or> count_words txt < min_words
              \<longrightarrow> extract_opinion min_words max_words summarizer txt = txt"
    by (auto simp: extract_opinion_def Let_def)
  have long: "max_words < count_words txt \<longrightarrow>
              extract_opinion min_words max_words summarizer txt =
                (case summarizer txt of
                   Some extracted \<Rightarrow>
                     if max_words < count_words extracted
                     then py_join '' '' (take (nat max_words) (py_split extracted))
                     else extracted
                 | None \<Rightarrow> py_join '' '' (take (nat max_words) (py_split txt)))"
    using assms by (auto simp: extract_opinion_def Let_def py_prefix_def split: option.splits)
  have cut: "py_split (py_join '' '' (take (nat max_words) (py_split txt)))
              = take (nat max_words) (py_split txt)"
    using count_words_truncated(1)[OF assms(2), of "txt"] assms(2) by (simp add: py_prefix_def)
  from bound len same long cut show ?thesis by blast
qed

text \<open>
  With bounds 2 and 3: a text of one word and a text of three words are kept, a text
  of five words whose summary has four words is cut to the first three words of the
  summary, and a text of four words for which the summariser raises is cut to its
  first three words.
\<close>

theorem extract_opinions_word_bound_witness:
  "extract_opinions_batch 2 3
     (\<lambda>t. if t = ''a b c d e'' then Some ''p q  r s'' else None)
     [''one'', ''one two three'', ''a b c d e'', ''w x y z'']
     = [''one'', ''one two three'', ''p q r'', ''w x y'']
   \<and> map count_words
       (extract_opinions_batch 2 3
          (\<lambda>t. if t = ''a b c d e'' then Some ''p q  r s'' else None)
          [''one'', ''one two three'', ''a b c d e'', ''w x y z''])
     = [1, 3, 3, 3]"
  using extract_opinions_word_bound [of 2 3 "\<lambda>t. if t = ''a b c d e'' then Some ''p q  r s'' else None"
          "[''one'', ''one two three'', ''a b c d e'', ''w x y z'']" "''w x y z''"]
  by (simp add: extract_opinions_batch_def extract_opinion_def count_words_def py_split_def
        py_prefix_def is_space_def Let_def)

section \<open>The page loop of the Steam collector\<close>

lemma scrape_loop_unfold:
  "scrape_loop api a g review_type tc md cur pc rs tr sent =
     (if int (length rs) < tc \<and> pc < max_pages then
        (case usable (api a review_type cur) of
           None \<Rightarrow> (rs, tr, Suc sent)
         | Some (batch, nxt) \<Rightarrow>
             (case process_page g a md tc batch rs tr of
                (raised, rs', tr') \<Rightarrow>
                  if raised then (rs', tr', Suc sent)
                  else (case nxt of
                          None \<Rightarrow> (rs', tr', Suc sent)
                        | Some c \<Rightarrow>
                            scrape_loop api a g review_type tc md c (Suc pc) rs' tr' (Suc sent))))
      else (rs, tr, sent))"
  by (subst scrape_loop.simps) (simp add: usable_def split: option.splits prod.splits)

declare scrape_loop.simps [simp del]

text \<open>
  An invariant of the state (reviews, tracker) that every page keeps, as long as the
  quota is not met, holds of the result of the loop.
\<close>

lemma scrape_loop_done:
  "\<not> (int (length rs) < tc \<and> pc < max_pages) \<Longrightarrow>
   scrape_loop api a g review_type tc md cur pc rs tr sent = (rs, tr, sent)"
  by (subst scrape_loop_unfold) auto

lemma scrape_loop_no_page:
  "int (length rs) < tc \<Longrightarrow> pc < max_pages \<Longrightarrow> usable (api a review_type cur) = None \<Longrightarrow>
   scrape_loop api a g review_type tc md cur pc rs tr sent = (rs, tr, Suc sent)"
  by (subst scrape_loop_unfold) auto

lemma scrape_loop_last_page:
  "int (length rs) < tc \<Longrightarrow> pc < max_pages \<Longrightarrow> usable (api a review_type cur) = Some (batch, nxt) \<Longrightarrow>
   process_page g a md tc batch rs tr = (raised, rs', tr') \<Longrightarrow> raised \<or> nxt = None \<Longrightarrow>
   scrape_loop api a g review_type tc md cur pc rs tr sent = (rs', tr', Suc sent)"
  by (subst scrape_loop_unfold) auto

lemma scrape_loop_next_page:
  "int (length rs) < tc \<Longrightarrow> pc < max_pages \<Longrightarrow> usable (api a review_type cur) = Some (batch, Some c) \<Longrightarrow>
   process_page g a md tc batch rs tr = (False, rs', tr') \<Longrightarrow>
   scrape_loop api a g review_type tc md cur pc rs tr sent
     = scrape_loop api a g review_type tc md c (Suc pc) rs' tr' (Suc sent)"
  by (subst scrape_loop_unfold) auto

text \<open>
  An invariant of the state (reviews, tracker) that every page keeps, as long as the
  quota is not met, holds of the result of the loop.
\<close>

lemma scrape_loop_invariant:
  assumes "Q rs tr"
    and step: "\<And>cur batch nxt rs tr raised rs' tr'.
        usable (api a review_type cur) = Some (batch, nxt) \<Longrightarrow> Q rs tr \<Longrightarrow> int (length rs) < tc \<Longrightarrow>
        process_page g a md tc batch rs tr = (raised, rs', tr') \<Longrightarrow> Q rs' tr'"
  shows "Q (fst (scrape_loop api a g review_type tc md cur pc rs tr sent))
           (fst (snd (scrape_loop api a g review_type tc md cur pc rs tr sent)))"
  using assms(1)
proof (induction "max_pages - pc" arbitrary: cur pc rs tr sent)
  case 0
  then have stop: "\<not> (int (length rs) < tc \<and> pc < max_pages)" by simp
  with 0 show ?case by (simp add: scrape_loop_done [OF stop])
next
  case (Suc k)
  show ?case
  proof (cases "int (length rs) < tc \<and> pc < max_pages")
    case False
    with Suc.prems show ?thesis by (simp add: scrape_loop_done [OF False])
  next
    case guard: True
    show ?thesis
    proof (cases "usable (api a review_type cur)")
      case None
      with guard Suc.prems show ?thesis by (auto simp: scrape_loop_no_page)
    next
      case (Some page)
      obtain batch nxt where page: "usable (api a review_type cur) = Some (batch, nxt)"
        using Some by (cases page) simp
      obtain raised rs' tr' where pp: "process_page g a md tc batch rs tr = (raised, rs', tr')"
        by (cases "process_page g a md tc batch rs tr")
      have Q': "Q rs' tr'"
        using step [OF page Suc.prems _ pp] guard by simp
      show ?thesis
      proof (cases "raised \<or> nxt = None")
        case True
        have "scrape_loop api a g review_type tc md cur pc rs tr sent = (rs', tr', Suc sent)"
          by (rule scrape_loop_last_page [where batch = batch and nxt = nxt and raised = raised])
             (use guard page pp True in auto)
        with Q' show ?thesis by simp
      next
        case False
        then obtain c where c: "nxt = Some c" and nr: "\<not> raised" by auto
        have "k = max_pages - Suc pc" using Suc.hyps(2) by simp
        have "scrape_loop api a g review_type tc md cur pc rs tr sent
            = scrape_loop api a g review_type tc md c (Suc pc) rs' tr' (Suc sent)"
          by (rule scrape_loop_next_page [where batch = batch]) (use guard page pp c nr in auto)
        with Suc.hyps(1) [OF \<open>k = max_pages - Suc pc\<close> Q', of c "Suc sent"]
        show ?thesis by simp
      qed
    qed
  qed
qed

lemma scrape_loop_requests:
  "snd (snd (scrape_loop api a g review_type tc md cur pc rs tr sent)) \<le> sent + (max_pages - pc)"
proof (induction "max_pages - pc" arbitrary: cur pc rs tr sent)
  case 0
  then have stop: "\<not> (int (length rs) < tc \<and> pc < max_pages)" by simp
  then show ?case by (simp add: scrape_loop_done [OF stop])
next
  case (Suc k)
  show ?case
  proof (cases "int (length rs) < tc \<and> pc < max_pages")
    case False
    then show ?thesis by (simp add: scrape_loop_done [OF False])
  next
    case guard: True
    show ?thesis
    proof (cases "usable (api a review_type cur)")
      case None
      with guard show ?thesis by (auto simp: scrape_loop_no_page)
    next
      case (Some page)
      obtain batch nxt where page: "usable (api a review_type cur) = Some (batch, nxt)"
        using Some by (cases page) simp
      obtain raised rs' tr' where pp: "process_page g a md tc batch rs tr = (raised, rs', tr')"
        by (cases "process_page g a md tc batch rs tr")
      show ?thesis
      proof (cases "raised \<or> nxt = None")
        case True
        have "scrape_loop api a g review_type tc md cur pc rs tr sent = (rs', tr', Suc sent)"
          by (rule scrape_loop_last_page [where batch = batch and nxt = nxt and raised = raised])
             (use guard page pp True in auto)
        with guard show ?thesis by auto
      next
        case False
        then obtain c where c: "nxt = Some c" and nr: "\<not> raised" by auto
        have "k = max_pages - Suc pc" using Suc.hyps(2) by simp
        have "scrape_loop api a g review_type tc md cur pc rs tr sent
            = scrape_loop api a g review_type tc md c (Suc pc) rs' tr' (Suc sent)"
          by (rule scrape_loop_next_page [where batch = batch]) (use guard page pp c nr in auto)
        with Suc.hyps(1) [OF \<open>k = max_pages - Suc pc\<close>, of c rs' tr' "Suc sent"] guard
        show ?thesis by auto
      qed
    qed
  qed
qed

lemma process_page_length:
  "int (length rs) < tc \<Longrightarrow> int (length (fst (snd (process_page g a md tc batch rs tr)))) \<le> tc"
proof (induction batch arbitrary: rs tr)
  case Nil
  then show ?case by simp
next
  case (Cons r batch)
  show ?case
  proof (cases "steam_verdict g a md tr r")
    case Rejected
    with Cons show ?thesis by (simp add: process_page_step del: process_page.simps)
  next
    case Duplicate
    with Cons show ?thesis by (simp add: process_page_step del: process_page.simps)
  next
    case Raises
    with Cons show ?thesis by (simp add: process_page_step del: process_page.simps)
  next
    case (Accepted row)
    show ?thesis
    proof (cases "tc \<le> int (length (rs @ [row]))")
      case True
      with Accepted Cons.prems show ?thesis
        by (simp add: process_page_step del: process_page.simps)
    next
      case False
      with Accepted Cons.IH [of "rs @ [row]"] show ?thesis
        by (simp add: process_page_step del: process_page.simps)
    qed
  qed
qed

lemma scrape_by_type_length:
  "int (length (fst (scrape_by_type api tr a g review_type tc md))) \<le> max 0 tc"
proof -
  have "(\<lambda>rs tr. int (length rs) \<le> max 0 tc)
          (fst (scrape_loop api a g review_type tc md ''*'' 0 [] tr 0))
          (fst (snd (scrape_loop api a g review_type tc md ''*'' 0 [] tr 0)))"
  proof (rule scrape_loop_invariant)
    show "int (length ([] :: review list)) \<le> max 0 tc" by simp
  next
    fix batch rs tr raised rs' tr'
    assume "int (length rs) < tc" and "process_page g a md tc batch rs tr = (raised, rs', tr')"
    then show "int (length rs') \<le> max 0 tc"
      using process_page_length [of rs tc g a md batch tr] by simp
  qed
  then show ?thesis by (simp add: scrape_by_type_def)
qed

lemma scrape_by_type_requests:
  "snd (snd (scrape_by_type api tr a g review_type tc md)) \<le> max_pages"
  using scrape_loop_requests [of api a g review_type tc md "''*''" 0 "[]" tr 0]
  by (simp add: scrape_by_type_def)

section \<open>The number of accepted records and the quota\<close>

text \<open>
  The Steam collector never accepts more than the planner asked for: the new reviews of
  a game are those of the positive fetch followed by those of the negative fetch, and
  each part is at most as long as the amount needed for its category.
\<close>

lemma steam_accepts_within_needed:
  "\<exists>pos_reviews neg_reviews.
     fst (scrape_game fm api s a g) = pos_reviews @ neg_reviews
     \<and> int (length pos_reviews) \<le> positive (calculate_needed s g)
     \<and> int (length neg_reviews) \<le> negative (calculate_needed s g)"
proof -
  let ?nd = "calculate_needed s g"
  have nonneg: "0 \<le> positive ?nd" "0 \<le> negative ?nd"
    by (simp_all add: calculate_needed_def Let_def split: option.splits prod.splits)
  show ?thesis
  proof (cases "positive ?nd = 0 \<and> negative ?nd = 0")
    case True
    then have "fst (scrape_game fm api s a g) = [] @ []"
      by (simp add: scrape_game_def Let_def)
    with True show ?thesis by (metis list.size(3) of_nat_0 order_refl)
  next
    case False
    define pos where "pos = (if 0 < positive ?nd
        then scrape_by_type api (existing_reviews s) a g ''positive'' (positive ?nd) (fm a)
        else ([], existing_reviews s, 0))"
    define neg where "neg = (if 0 < negative ?nd
        then scrape_by_type api (fst (snd pos)) a g ''negative'' (negative ?nd) (fm a)
        else ([], fst (snd pos), 0))"
    have "fst (scrape_game fm api s a g) = fst pos @ fst neg"
      using False by (simp add: scrape_game_def Let_def pos_def neg_def split: prod.splits)
    moreover have "int (length (fst pos)) \<le> positive ?nd"
      using scrape_by_type_length [of api "existing_reviews s" a g "''positive''" "positive ?nd" "fm a"]
        nonneg by (simp add: pos_def)
    moreover have "int (length (fst neg)) \<le> negative ?nd"
      using scrape_by_type_length [of api "fst (snd pos)" a g "''negative''" "negative ?nd" "fm a"]
        nonneg by (simp add: neg_def)
    ultimately show ?thesis by blast
  qed
qed

text \<open>
  The loop of the Metacritic scraper tests its quota after it has appended: it accepts
  at most \<open>num_reviews\<close> reviews when that is at least one, and up to one review when
  it is zero or less.
\<close>

lemma scan_reviews_length:
  "int (length rs) < max 1 n \<Longrightarrow>
   int (length (fst (scan_reviews g sentiment n divs rs existing dups))) \<le> max 1 n"
proof (induction divs arbitrary: rs existing dups)
  case Nil
  then show ?case by simp
next
  case (Cons d divs)
  show ?case
  proof (cases "metacritic_verdict g sentiment existing d")
    case Rejected
    with Cons show ?thesis by (simp add: scan_reviews_step del: scan_reviews.simps)
  next
    case Duplicate
    with Cons show ?thesis by (simp add: scan_reviews_step del: scan_reviews.simps)
  next
    case Raises
    with Cons show ?thesis by (simp add: scan_reviews_step del: scan_reviews.simps)
  next
    case (Accepted row)
    show ?thesis
    proof (cases "n \<le> int (length (rs @ [row]))")
      case True
      with Accepted Cons.prems show ?thesis
        by (simp add: scan_reviews_step del: scan_reviews.simps)
    next
      case False
      then have "int (length (rs @ [row])) < max 1 n" by simp
      with Accepted False Cons.IH [of "rs @ [row]"] show ?thesis
        by (simp add: scan_reviews_step del: scan_reviews.simps)
    qed
  qed
qed

lemma metacritic_accepts_at_most:
  "int (length (fst (scrape_reviews_by_sentiment web existing game_url g sentiment n))) \<le> max 1 n"
proof -
  have "int (length (fst (scan_reviews g sentiment n divs [] existing 0))) \<le> max 1 n" for divs
    by (rule scan_reviews_length) simp
  then show ?thesis
    by (auto simp: scrape_reviews_by_sentiment_def Let_def split: option.splits)
qed

text \<open>
  C2 at the failing input. With 2499 rows in the existing Metacritic table and one game,
  the planner computes 0 positive and 1 negative review per game. The positive fetch
  is called with \<open>num_reviews = 0\<close> and still accepts the first positive review of the
  page: the loop tests its quota only after appending, so one record is accepted where
  none was needed.
\<close>

theorem metacritic_zero_quota_accepts:
  "per_game_split ((TARGET_TOTAL - int (length (replicate 2499 (example_mc_row ''zed'' ''Old''))))
       div int (length [(1 :: int, ''G'')])) = (0, 1)
   \<and> fst (scrape_reviews_by_sentiment (example_site [example_div 9 ''alice'', example_div 8 ''bob''])
          {} ''https://www.metacritic.com/game/g/'' ''G'' ''positive'' 0)
       = [\<lparr>mc_review_text = ''a long enough review'', mc_user_score = 9, mc_voted_up = True,
           mc_author = ''alice'', mc_date = ''N/A''\<rparr>]
   \<and> metacritic_collect (Some (replicate 2499 (example_mc_row ''zed'' ''Old''))) [(1, ''G'')]
         (example_site [example_div 9 ''alice'', example_div 8 ''bob''])
       = [\<lparr>mc_review_text = ''a long enough review'', mc_user_score = 9, mc_voted_up = True,
           mc_author = ''alice'', mc_date = ''N/A'', mc_game_name = ''G'', mc_app_id = 1\<rparr>]"
  by (simp add: per_game_split_def TARGET_TOTAL_def Let_def scrape_reviews_by_sentiment_def
        example_site_def example_div_def metacritic_collect_def load_existing_reviews_def
        add_game_def example_mc_row_def)

section \<open>The number of page requests\<close>

text \<open>
  The loop of \<open>SmartSteamScraper\<close> sends at most \<open>max_pages\<close> requests per fetch
  (lemma \<open>scrape_by_type_requests\<close> above). The loop of the first script has no such
  ceiling.
\<close>

lemma fetch_loop_endless:
  "fetch_loop api a review_type num_reviews cur rs = Some y \<Longrightarrow>
   \<not> (api = endless \<and> rs = [] \<and> 0 < num_reviews)"
proof (induction rule: fetch_loop.raw_induct [rotated 1, consumes 1])
  case (1 loop api a review_type num_reviews cur rs y)
  show ?case
  proof
    assume bad: "api = endless \<and> rs = [] \<and> 0 < num_reviews"
    have page: "collect_page a num_reviews [example_raw ''u1'' ''too short'' True] [] = (False, [])"
      by (simp add: example_raw_def)
    from "1.hyps" bad page have "loop endless a review_type num_reviews ''next'' [] = Some y"
      by (simp add: endless_def)
    with "1.IH" bad show False by blast
  qed
qed

lemma fetch_loop_fuel_endless:
  "0 < num_reviews \<Longrightarrow> fetch_loop_fuel k endless a review_type num_reviews cur [] = None"
  by (induction k arbitrary: cur) (simp_all add: endless_def example_raw_def)

text \<open>
  C7 at the failing input. Against an endpoint that always answers with a page of one
  review of ten characters or fewer and a further cursor, \<open>fetch_reviews_by_type\<close> of
  steam\_scr.py asked for one review never returns: no budget of requests, however
  large, is enough for the loop to end.
\<close>

theorem fetch_reviews_by_type_never_returns:
  "fetch_reviews_by_type endless 1 ''positive'' 1 = None
   \<and> (\<forall>k. fetch_loop_fuel k endless 1 ''positive'' 1 ''*'' [] = None)"
proof -
  have "fetch_loop endless 1 ''positive'' 1 ''*'' [] \<noteq> Some y" for y
    using fetch_loop_endless [of endless 1 "''positive''" 1 "''*''" "[]" y] by auto
  then have "fetch_reviews_by_type endless 1 ''positive'' 1 = None"
    by (cases "fetch_loop endless 1 ''positive'' 1 ''*'' []") (auto simp: fetch_reviews_by_type_def)
  then show ?thesis by (simp add: fetch_loop_fuel_endless)
qed

section \<open>What is read from a file\<close>

lemma show_nat_digit: "n < 10 \<Longrightarrow> show_nat n = [''0123456789'' ! n]"
  by (subst show_nat.simps) simp

lemma show_nat_more:
  "10 \<le> n \<Longrightarrow> show_nat n = show_nat (n div 10) @ [''0123456789'' ! (n mod 10)]"
  by (subst show_nat.simps) simp

lemmas reading =
  read_column_def column_kind_def read_cell_def is_na_def na_values_def is_bool_text_def
  true_values_def false_values_def surely_text_def numeral_char_def is_space_def plain_int_def
  plain_decimal_def all_digits_def unsigned_def is_digit_def int_of_text_def nat_of_digits_def
  digit_value_def Let_def

lemmas writing =
  print_cell_def show_int_def show_nat_digit show_nat_more

lemmas frames =
  data_frame_def integers_kept_def is_int_def is_str_def example_row_def






lemma read_csv_user_id:
  assumes "read_csv rows = Some df"
  obtains k where "column_kind (map csv_user_id rows) = Some k"
    and "map user_id df = map (\<lambda>r. read_cell k (csv_user_id r)) rows"
  using assms by (auto simp: read_csv_def bind_eq_Some_conv read_column_def comp_def)

text \<open>
  The placeholder \<open>N/A\<close> is one of the missing-value markers, so no cell of a table read
  from a file holds it as a text: the test of line 150 holds of every row, and every row
  is tracked.
\<close>

lemma read_cell_not_placeholder: "read_cell k t \<noteq> Str ''N/A''"
  by (cases k) (auto simp: read_cell_def is_na_def na_values_def)

lemma read_csv_all_tracked:
  assumes "read_csv rows = Some df"
  shows "tracked_pairs df = set (map (\<lambda>row. (user_id row, game_name row)) df)"
proof -
  from assms obtain k where "map user_id df = map (\<lambda>r. read_cell k (csv_user_id r)) rows"
    by (rule read_csv_user_id)
  then have "set (map user_id df) \<subseteq> range (read_cell k)"
    by auto
  then have "\<forall>row \<in> set df. user_id row \<noteq> Str ''N/A''"
    using read_cell_not_placeholder [of k] by (auto simp: image_subset_iff)
  then have "filter (\<lambda>row. user_id row \<noteq> Str ''N/A'') df = df"
    by (simp add: filter_id_conv)
  then show ?thesis
    by (simp add: tracked_pairs_def)
qed

text \<open>
  A column of reviewers that \<open>pd.read_csv\<close> reads as numbers holds no text, so no
  reviewer of the endpoint, a \<open>str\<close>, is ever found in the tracker built from it.
\<close>

lemma numeric_column_never_duplicate:
  assumes "read_csv rows = Some df"
    and "column_kind (map csv_user_id rows) = Some Int64
         \<or> column_kind (map csv_user_id rows) = Some Float64"
  shows "\<not> is_duplicate (scraper_init (Some df) tpg) uid g"
proof -
  from assms(1) obtain k where k: "column_kind (map csv_user_id rows) = Some k"
    and ids: "map user_id df = map (\<lambda>r. read_cell k (csv_user_id r)) rows"
    by (rule read_csv_user_id)
  from k assms(2) have "k = Int64 \<or> k = Float64"
    by auto
  then have "Str uid \<notin> range (read_cell k)"
    by (auto simp: read_cell_def)
  moreover have "set (map user_id df) \<subseteq> range (read_cell k)"
    unfolding ids by auto
  ultimately have "Str uid \<notin> set (map user_id df)"
    by blast
  then show ?thesis
    by (auto simp: is_duplicate_def scraper_init_def tracked_pairs_def)
qed

section \<open>The duplicate check\<close>

text \<open>
  The check finds a reviewer of the persisted table when the data frame holds the
  reviewer and the game as texts, and it finds a reviewer accepted earlier in the same
  run, whose pair of texts the loop has added to the tracker.
\<close>

lemma text_reviewer_is_duplicate:
  "row \<in> set df \<Longrightarrow> user_id row = Str uid \<Longrightarrow> game_name row = Str g \<Longrightarrow> uid \<noteq> ''N/A'' \<Longrightarrow>
   is_duplicate (scraper_init (Some df) tpg) uid g"
  by (force simp: is_duplicate_def scraper_init_def tracked_pairs_def)

lemma accepted_reviewer_then_duplicate:
  "rr_steamid r = Some uid \<Longrightarrow> steam_verdict g a md (insert (Str uid, Str g) tr) r = Duplicate"
  by (simp add: steam_verdict_def Let_def)

section \<open>A reviewer of the persisted table under the same game\<close>

text \<open>
  C1 at the failing input. The persisted table has one row, a review of the game \<open>G\<close>
  by the reviewer 76561198000000001. \<open>pd.read_csv\<close> reads the column of reviewers as
  integers, so the tracker holds the pair of the number and \<open>'G'\<close>. The endpoint
  returns a review of \<open>G\<close> by the same reviewer, whose \<open>steamid\<close> is the text
  \<open>'76561198000000001'\<close>: \<open>is_duplicate\<close> looks up the pair of the two texts and does not
  find it, the review is accepted, and the merged table written to
  \<open>cleaned_reviews_updated.csv\<close> has two rows with the same reviewer and the same game.
\<close>

theorem persisted_reviewer_accepted_again:
  "read_csv [example_csv ''76561198000000001'' ''G'' ''a very good game to play'' ''N/A'']
     = Some [example_row (Integer 76561198000000001) ''G'' ''a very good game to play'' NaN]
   \<and> existing_reviews
         (scraper_init
            (Some [example_row (Integer 76561198000000001) ''G'' ''a very good game to play'' NaN]) 104)
       = {(Integer 76561198000000001, Str ''G'')}
   \<and> \<not> is_duplicate
         (scraper_init
            (Some [example_row (Integer 76561198000000001) ''G'' ''a very good game to play'' NaN]) 104)
         ''76561198000000001'' ''G''
   \<and> steam_main (Some [example_csv ''76561198000000001'' ''G'' ''a very good game to play'' ''N/A''])
         104 [(1, ''G'')] (\<lambda>a. [])
         (one_page [example_raw ''76561198000000001'' ''one two three four five'' True]) ''yes''
       = Some \<lparr>additional_reviews =
                 Some [example_row (Str ''76561198000000001'') ''G'' ''one two three four five''
                         (Str ''N/A'')],
               reviews_updated =
                 Some [example_row (Integer 76561198000000001) ''G'' ''a very good game to play'' NaN,
                       example_row (Str ''76561198000000001'') ''G'' ''one two three four five''
                         (Str ''N/A'')]\<rparr>
   \<and> to_csv [example_row (Integer 76561198000000001) ''G'' ''a very good game to play'' NaN,
              example_row (Str ''76561198000000001'') ''G'' ''one two three four five'' (Str ''N/A'')]
       = Some [example_csv ''76561198000000001'' ''G'' ''a very good game to play'' [],
               example_csv ''76561198000000001'' ''G'' ''one two three four five'' ''N/A'']"
proof -
  have rd: "read_csv [example_csv ''76561198000000001'' ''G'' ''a very good game to play'' ''N/A'']
      = Some [example_row (Integer 76561198000000001) ''G'' ''a very good game to play'' NaN]"
    by (simp add: read_csv_def reading example_csv_def example_row_def)
  have tr: "existing_reviews
         (scraper_init
            (Some [example_row (Integer 76561198000000001) ''G'' ''a very good game to play'' NaN]) 104)
       = {(Integer 76561198000000001, Str ''G'')}"
    by (simp add: scraper_init_def tracked_pairs_def example_row_def)
  have nd: "\<not> is_duplicate
         (scraper_init
            (Some [example_row (Integer 76561198000000001) ''G'' ''a very good game to play'' NaN]) 104)
         ''76561198000000001'' ''G''"
    by (simp add: is_duplicate_def tr)
  have col: "steam_collect
         (Some [example_row (Integer 76561198000000001) ''G'' ''a very good game to play'' NaN])
         104 [(1, ''G'')] (\<lambda>a. [])
         (one_page [example_raw ''76561198000000001'' ''one two three four five'' True])
       = [example_row (Str ''76561198000000001'') ''G'' ''one two three four five'' (Str ''N/A'')]"
    by (simp add: steam_collect_def scrape_game_def scrape_by_type_def one_page_def Let_def
          calculate_needed_def scraper_init_def stats_of_def pos_count_def neg_count_def
          tracked_pairs_def example_row_def example_raw_def new_row_def meta_get_def py_split_def
          is_space_def max_pages_def scrape_loop.simps)
  have fn: "data_frame
         [example_row (Str ''76561198000000001'') ''G'' ''one two three four five'' (Str ''N/A'')]
       = Some [example_row (Str ''76561198000000001'') ''G'' ''one two three four five''
                 (Str ''N/A'')]"
    by (simp add: frames)
  have fc: "data_frame
         [example_row (Integer 76561198000000001) ''G'' ''a very good game to play'' NaN,
          example_row (Str ''76561198000000001'') ''G'' ''one two three four five'' (Str ''N/A'')]
       = Some [example_row (Integer 76561198000000001) ''G'' ''a very good game to play'' NaN,
               example_row (Str ''76561198000000001'') ''G'' ''one two three four five''
                 (Str ''N/A'')]"
    by (simp add: frames)
  have main: "steam_main (Some [example_csv ''76561198000000001'' ''G'' ''a very good game to play'' ''N/A''])
         104 [(1, ''G'')] (\<lambda>a. [])
         (one_page [example_raw ''76561198000000001'' ''one two three four five'' True]) ''yes''
       = Some \<lparr>additional_reviews =
                 Some [example_row (Str ''76561198000000001'') ''G'' ''one two three four five''
                         (Str ''N/A'')],
               reviews_updated =
                 Some [example_row (Integer 76561198000000001) ''G'' ''a very good game to play'' NaN,
                       example_row (Str ''76561198000000001'') ''G'' ''one two three four five''
                         (Str ''N/A'')]\<rparr>"
    by (simp add: steam_main_def read_existing_def rd col fn fc)
  have wr: "to_csv [example_row (Integer 76561198000000001) ''G'' ''a very good game to play'' NaN,
              example_row (Str ''76561198000000001'') ''G'' ''one two three four five'' (Str ''N/A'')]
       = Some [example_csv ''76561198000000001'' ''G'' ''a very good game to play'' [],
               example_csv ''76561198000000001'' ''G'' ''one two three four five'' ''N/A'']"
    by (simp add: to_csv_def frames print_row_def writing example_csv_def)
  from rd tr nd main wr show ?thesis
    by (intro conjI)
qed

section \<open>A second run over the written table\<close>

text \<open>
  C4 at the failing input. The persisted table has one row, a review of the game \<open>G\<close>
  by the reviewer 76561198000000001, and the endpoint has one page with one positive
  review of \<open>G\<close>, by the reviewer 76561198000000002. The first run accepts that review
  and, on the answer \<open>yes\<close>, writes the merged table of two rows. The second run reads
  the written table, whose column of reviewers it reads as integers: its tracker holds
  numbers, the \<open>steamid\<close> of the same review of the same endpoint is a text, and the
  review is accepted a second time.
\<close>

theorem second_run_accepts_again:
  "steam_main (Some [example_csv ''76561198000000001'' ''G'' ''a very good game to play'' ''N/A''])
         104 [(1, ''G'')] (\<lambda>a. [])
         (one_page [example_raw ''76561198000000002'' ''one two three four five'' True]) ''yes''
       = Some \<lparr>additional_reviews =
                 Some [example_row (Str ''76561198000000002'') ''G'' ''one two three four five''
                         (Str ''N/A'')],
               reviews_updated =
                 Some [example_row (Integer 76561198000000001) ''G'' ''a very good game to play'' NaN,
                       example_row (Str ''76561198000000002'') ''G'' ''one two three four five''
                         (Str ''N/A'')]\<rparr>
   \<and> to_csv [example_row (Integer 76561198000000001) ''G'' ''a very good game to play'' NaN,
              example_row (Str ''76561198000000002'') ''G'' ''one two three four five'' (Str ''N/A'')]
       = Some [example_csv ''76561198000000001'' ''G'' ''a very good game to play'' [],
               example_csv ''76561198000000002'' ''G'' ''one two three four five'' ''N/A'']
   \<and> steam_main (Some [example_csv ''76561198000000001'' ''G'' ''a very good game to play'' [],
                       example_csv ''76561198000000002'' ''G'' ''one two three four five'' ''N/A''])
         104 [(1, ''G'')] (\<lambda>a. [])
         (one_page [example_raw ''76561198000000002'' ''one two three four five'' True]) ''yes''
       = Some \<lparr>additional_reviews =
                 Some [example_row (Str ''76561198000000002'') ''G'' ''one two three four five''
                         (Str ''N/A'')],
               reviews_updated =
                 Some [example_row (Integer 76561198000000001) ''G'' ''a very good game to play'' NaN,
                       example_row (Integer 76561198000000002) ''G'' ''one two three four five'' NaN,
                       example_row (Str ''76561198000000002'') ''G'' ''one two three four five''
                         (Str ''N/A'')]\<rparr>"
proof -
  let ?api = "one_page [example_raw ''76561198000000002'' ''one two three four five'' True]"
  let ?old = "example_row (Integer 76561198000000001) ''G'' ''a very good game to play'' NaN"
  let ?new = "example_row (Str ''76561198000000002'') ''G'' ''one two three four five'' (Str ''N/A'')"
  let ?reread = "example_row (Integer 76561198000000002) ''G'' ''one two three four five'' NaN"
  have fn: "data_frame [?new] = Some [?new]"
    and fc1: "data_frame [?old, ?new] = Some [?old, ?new]"
    and fc2: "data_frame [?old, ?reread, ?new] = Some [?old, ?reread, ?new]"
    by (simp_all add: frames)
  have rd1: "read_csv [example_csv ''76561198000000001'' ''G'' ''a very good game to play'' ''N/A'']
      = Some [?old]"
    by (simp add: read_csv_def reading example_csv_def example_row_def)
  have col1: "steam_collect (Some [?old]) 104 [(1, ''G'')] (\<lambda>a. []) ?api = [?new]"
    by (simp add: steam_collect_def scrape_game_def scrape_by_type_def one_page_def Let_def
          calculate_needed_def scraper_init_def stats_of_def pos_count_def neg_count_def
          tracked_pairs_def example_row_def example_raw_def new_row_def meta_get_def py_split_def
          is_space_def max_pages_def scrape_loop.simps)
  have run1: "steam_main (Some [example_csv ''76561198000000001'' ''G'' ''a very good game to play'' ''N/A''])
         104 [(1, ''G'')] (\<lambda>a. []) ?api ''yes''
       = Some \<lparr>additional_reviews = Some [?new], reviews_updated = Some [?old, ?new]\<rparr>"
    by (simp add: steam_main_def read_existing_def rd1 col1 fn fc1)
  have wr: "to_csv [?old, ?new]
       = Some [example_csv ''76561198000000001'' ''G'' ''a very good game to play'' [],
               example_csv ''76561198000000002'' ''G'' ''one two three four five'' ''N/A'']"
    by (simp add: to_csv_def frames print_row_def writing example_csv_def)
  have rd2: "read_csv [example_csv ''76561198000000001'' ''G'' ''a very good game to play'' [],
                       example_csv ''76561198000000002'' ''G'' ''one two three four five'' ''N/A'']
      = Some [?old, ?reread]"
    by (simp add: read_csv_def reading example_csv_def example_row_def)
  have col2: "steam_collect (Some [?old, ?reread]) 104 [(1, ''G'')] (\<lambda>a. []) ?api = [?new]"
    by (simp add: steam_collect_def scrape_game_def scrape_by_type_def one_page_def Let_def
          calculate_needed_def scraper_init_def stats_of_def pos_count_def neg_count_def
          tracked_pairs_def example_row_def example_raw_def new_row_def meta_get_def py_split_def
          is_space_def max_pages_def scrape_loop.simps)
  have run2: "steam_main (Some [example_csv ''76561198000000001'' ''G'' ''a very good game to play'' [],
                       example_csv ''76561198000000002'' ''G'' ''one two three four five'' ''N/A''])
         104 [(1, ''G'')] (\<lambda>a. []) ?api ''yes''
       = Some \<lparr>additional_reviews = Some [?new], reviews_updated = Some [?old, ?reread, ?new]\<rparr>"
    by (simp add: steam_main_def read_existing_def rd2 col2 fn fc2)
  from run1 wr run2 show ?thesis
    by (intro conjI)
qed

section \<open>The merged table\<close>





end
